theory Spec2Isabelle
  imports Main "HOL-Library.Word" "HOL-Library.AList"
begin

unbundle bit_operations_syntax

section \<open>Common types\<close>

type_synonym byte = "8 word"
type_synonym uint16 = "16 word"
type_synonym uint32 = "32 word"

text \<open>Run-time panics of the Go code: they abort the call, nothing is returned.\<close>

datatype panic = IndexOutOfRange | SliceBoundsOutOfRange | NilDereference

text \<open>Error values returned by the Go code (the \<open>error\<close> results of the source).\<close>

datatype error =
    ExpectedBytes nat nat
  | UnexpectedFrameType
  | PeerNil | PeerAddrNil | PeerAuthKeyNil
  | PeerNotLinked uint32
  | WriteToNilPeer
  | WriteFailed

text \<open>A call that can panic or return an error next to its value.\<close>

datatype fault = Panic panic | Error error

definition index_ok :: "'a list \<Rightarrow> int \<Rightarrow> bool" where
  "index_ok xs i \<longleftrightarrow> 0 \<le> i \<and> i < int (length xs)"

text \<open>Go's conversion \<open>uint8(n)\<close> of an \<open>int\<close> used as a shift count.\<close>

definition uint8_of_int :: "int \<Rightarrow> nat" where
  "uint8_of_int n = nat (n mod 256)"

section \<open>Talker alias codec (lc/talkeralias.go)\<close>

text \<open>
  Modelled from the spec: the bit masks come from the dmr package, which is outside the
  sources at hand; each is the binary numeral that its name spells.
\<close>

definition B00000001 :: byte where "B00000001 = 0x01"
definition B11000000 :: byte where "B11000000 = 0xC0"
definition B00111110 :: byte where "B00111110 = 0x3E"

definition Format7Bit :: byte where "Format7Bit = 0"
definition FormatISO8Bit :: byte where "FormatISO8Bit = 1"
definition FormatUTF8 :: byte where "FormatUTF8 = 2"
definition FormatUTF16BE :: byte where "FormatUTF16BE = 3"

record TalkerAliasHeaderPDU =
  DataFormat :: byte
  Length :: byte
  Data :: "byte list"

text \<open>
  \<open>movebit\<close> reads one bit of \<open>src\<close> and writes it into \<open>dst\<close>. The source clears with
  \<open>dst[dstByte] &= 0 << uint8(dstBit)\<close>: the mask is \<open>0\<close> shifted, so the whole byte is
  cleared. The updated \<open>dst\<close> is returned; an index outside either slice panics.
\<close>

definition movebit :: "byte list \<Rightarrow> int \<Rightarrow> int \<Rightarrow> byte list \<Rightarrow> int \<Rightarrow> int \<Rightarrow> panic + byte list" where
  "movebit src srcByte srcBit dst dstByte dstBit =
     (if \<not> index_ok src srcByte then Inl IndexOutOfRange
      else let bit = drop_bit (uint8_of_int srcBit) (src ! nat srcByte) AND B00000001 in
        if \<not> index_ok dst dstByte then Inl IndexOutOfRange
        else if bit \<ge> 1
          then Inr (dst[nat dstByte := (dst ! nat dstByte) OR push_bit (uint8_of_int dstBit) 1])
          else Inr (dst[nat dstByte := (dst ! nat dstByte) AND push_bit (uint8_of_int dstBit) 0]))"

text \<open>The loop \<open>for i := 7; i < 56; i++\<close> of the parser, over the remaining values of \<open>i\<close>.\<close>

fun parse_loop :: "byte list \<Rightarrow> int list \<Rightarrow> byte list \<Rightarrow> panic + byte list" where
  "parse_loop data [] out = Inr out"
| "parse_loop data (i # is) out =
     (case movebit data (i div 8) (7 - (i mod 8)) out ((i - 7) div 7) (6 - (i mod 7)) of
        Inl e \<Rightarrow> Inl e
      | Inr out' \<Rightarrow> parse_loop data is out')"

definition ParseTalkerAliasHeaderPDU :: "byte list \<Rightarrow> fault + TalkerAliasHeaderPDU" where
  "ParseTalkerAliasHeaderPDU data =
     (if length data \<noteq> 7 then Inl (Error (ExpectedBytes 7 (length data)))
      else let dataFormat = drop_bit 6 (data ! 0 AND B11000000) in
        case (if dataFormat = Format7Bit
              then parse_loop data [7..55] (replicate 7 0)
              else Inr (take 5 (drop 1 data))) of
          Inl p \<Rightarrow> Inl (Panic p)
        | Inr out \<Rightarrow> Inr \<lparr>DataFormat = dataFormat,
                          Length = drop_bit 1 (data ! 0 AND B00111110),
                          Data = out\<rparr>)"

text \<open>The loop of \<open>Bytes\<close>: the same walk, with source and destination swapped.\<close>

fun bytes_loop :: "byte list \<Rightarrow> int list \<Rightarrow> byte list \<Rightarrow> panic + byte list" where
  "bytes_loop tdata [] out = Inr out"
| "bytes_loop tdata (i # is) out =
     (case movebit tdata ((i - 7) div 7) (6 - (i mod 7)) out ((i div 8) - 1) (7 - (i mod 8)) of
        Inl e \<Rightarrow> Inl e
      | Inr out' \<Rightarrow> bytes_loop tdata is out')"

text \<open>\<open>bit49\<close> is declared and never assigned in the source: it is \<open>0\<close>.\<close>

definition Bytes :: "TalkerAliasHeaderPDU \<Rightarrow> panic + byte list" where
  "Bytes t =
     (let bit49 = (0 :: byte) in
      case (if DataFormat t = Format7Bit
            then bytes_loop (Data t) [7..55] (replicate 6 0)
            else Inr (Data t)) of
        Inl p \<Rightarrow> Inl p
      | Inr out \<Rightarrow>
          if length out < 6 then Inl IndexOutOfRange
          else Inr [(push_bit 6 (DataFormat t) AND B11000000)
                      OR (push_bit 1 (Length t) AND B00111110)
                      OR (bit49 AND B00000001),
                    out ! 0, out ! 1, out ! 2, out ! 3, out ! 4, out ! 5])"

section \<open>The dmr package\<close>

text \<open>
  Modelled from the spec: the root package \<open>dmr\<close> (packet struct, data-type and call-type
  enumerations, software identifiers) is outside the sources at hand. Its constants are
  taken as parameters, collected in one record. The spec says the package supplies the
  ordering of the bursts A..F, so the bursts B..F are the five successors of
  \<open>VoiceBurstA\<close>.
\<close>

record dmr =
  VoiceBurstA :: byte
  CallTypePrivate :: byte
  CallTypeGroup :: byte
  dmr_SoftwareID :: string
  dmr_PackageID :: string

definition VoiceBurstB :: "dmr \<Rightarrow> byte" where "VoiceBurstB d = VoiceBurstA d + 1"
definition VoiceBurstC :: "dmr \<Rightarrow> byte" where "VoiceBurstC d = VoiceBurstA d + 2"
definition VoiceBurstD :: "dmr \<Rightarrow> byte" where "VoiceBurstD d = VoiceBurstA d + 3"
definition VoiceBurstE :: "dmr \<Rightarrow> byte" where "VoiceBurstE d = VoiceBurstA d + 4"
definition VoiceBurstF :: "dmr \<Rightarrow> byte" where "VoiceBurstF d = VoiceBurstA d + 5"

text \<open>
  Modelled from the spec: the \<open>Packet\<close> struct of the dmr package, with the fields the
  spec lists and the integer types the codec's assignments need. \<open>SetData\<close> stores the
  payload.
\<close>

record Packet =
  Sequence :: byte
  SrcID :: uint32
  DstID :: uint32
  RepeaterID :: uint32
  Timeslot :: byte
  CallType :: byte
  StreamID :: uint32
  DataType :: byte
  BER :: byte
  RSSI :: byte
  Data_p :: "byte list"

definition SetData :: "Packet \<Rightarrow> byte list \<Rightarrow> Packet" where
  "SetData p d = p\<lparr>Data_p := d\<rparr>"

section \<open>Wire codec (homebrew/homebrew.go)\<close>

text \<open>The protocol verbs, as ASCII bytes.\<close>

definition bytes_of :: "string \<Rightarrow> byte list" where
  "bytes_of s = map (\<lambda>c. of_nat (of_char c)) s"

definition DMRData :: "byte list" where "DMRData = bytes_of ''DMRD''"
definition MasterNAK :: "byte list" where "MasterNAK = bytes_of ''MSTNAK''"
definition MasterACK :: "byte list" where "MasterACK = bytes_of ''MSTACK''"
definition RepeaterACK :: "byte list" where "RepeaterACK = bytes_of ''RPTACK''"
definition RepeaterLogin :: "byte list" where "RepeaterLogin = bytes_of ''RPTL''"
definition RepeaterKey :: "byte list" where "RepeaterKey = bytes_of ''RPTK''"
definition RepeaterConfig :: "byte list" where "RepeaterConfig = bytes_of ''RPTC''"
definition MasterPing :: "byte list" where "MasterPing = bytes_of ''MSTPING''"
definition MasterPong :: "byte list" where "MasterPong = bytes_of ''MSTPONG''"
definition RepeaterPing :: "byte list" where "RepeaterPing = bytes_of ''RPTPING''"
definition RepeaterPong :: "byte list" where "RepeaterPong = bytes_of ''RPTPONG''"
definition MasterClosing :: "byte list" where "MasterClosing = bytes_of ''MSTCL''"
definition RepeaterClosing :: "byte list" where "RepeaterClosing = bytes_of ''RPTCL''"

text \<open>Go's \<open>uint8(x >> n)\<close> of a 32-bit value.\<close>

definition byte_at :: "nat \<Rightarrow> uint32 \<Rightarrow> byte" where
  "byte_at n x = ucast (drop_bit n x)"

text \<open>Go's \<open>uint32(b) << n\<close> of a byte.\<close>

definition shl32 :: "byte \<Rightarrow> nat \<Rightarrow> uint32" where
  "shl32 b n = push_bit n (ucast b)"

definition packRepeaterID :: "uint32 \<Rightarrow> byte list" where
  "packRepeaterID i = [byte_at 24 i, byte_at 16 i, byte_at 8 i, byte_at 0 i]"

definition unpackRepeaterID :: "byte list \<Rightarrow> panic + uint32" where
  "unpackRepeaterID data =
     (if length data < 4 then Inl IndexOutOfRange
      else Inr (shl32 (data ! 0) 24 OR shl32 (data ! 1) 16 OR shl32 (data ! 2) 8 OR ucast (data ! 3)))"

text \<open>
  \<open>copy(dst, src)\<close> into a zeroed field of \<open>n\<close> bytes: the first \<open>n\<close> bytes of \<open>src\<close>, the
  rest of the field stays zero.
\<close>

definition copy_field :: "nat \<Rightarrow> byte list \<Rightarrow> byte list" where
  "copy_field n src = take n src @ replicate (n - length src) 0"

text \<open>
  The packed byte 15 of a DMR frame: timeslot and call type, then the \<open>switch\<close> on the
  data type, in the order of the source.
\<close>

definition packed_byte :: "dmr \<Rightarrow> Packet \<Rightarrow> byte" where
  "packed_byte d p =
     (let b = push_bit 7 (Timeslot p AND 0x01) OR push_bit 6 (CallType p AND 0x01) in
      if DataType p \<in> {VoiceBurstB d, VoiceBurstC d, VoiceBurstD d, VoiceBurstE d, VoiceBurstF d}
        then (b OR push_bit 4 0x00) OR (DataType p - VoiceBurstA d)
      else if DataType p = VoiceBurstA d
        then b OR push_bit 4 0x01
      else (b OR push_bit 4 0x02) OR DataType p)"

text \<open>\<open>buildData\<close>: the 55 bytes of the frame, in the order of their offsets.\<close>

definition buildData :: "dmr \<Rightarrow> Packet \<Rightarrow> uint32 \<Rightarrow> byte list" where
  "buildData d p repeaterID =
     DMRData
     @ [Sequence p]
     @ [byte_at 16 (SrcID p), byte_at 8 (SrcID p), byte_at 0 (SrcID p)]
     @ [byte_at 16 (DstID p), byte_at 8 (DstID p), byte_at 0 (DstID p)]
     @ [byte_at 24 repeaterID, byte_at 16 repeaterID, byte_at 8 repeaterID, byte_at 0 repeaterID]
     @ [packed_byte d p]
     @ [byte_at 24 (StreamID p), byte_at 16 (StreamID p), byte_at 8 (StreamID p), byte_at 0 (StreamID p)]
     @ copy_field 33 (Data_p p)
     @ [BER p, RSSI p]"

definition parseData :: "dmr \<Rightarrow> byte list \<Rightarrow> error + Packet" where
  "parseData d data =
     (if length data \<noteq> 55 then Inl (ExpectedBytes 55 (length data))
      else let kind = drop_bit 4 (data ! 15) AND 0x03 in
        if kind = 0x00 \<or> kind = 0x01 \<or> kind = 0x02 then
          let dataType = (if kind = 0x02 then data ! 15 AND 0x0f
                          else VoiceBurstA d + (data ! 15 AND 0x0f));
              p = \<lparr>Sequence = data ! 4,
                   SrcID = shl32 (data ! 5) 16 OR shl32 (data ! 6) 8 OR ucast (data ! 7),
                   DstID = shl32 (data ! 8) 16 OR shl32 (data ! 9) 8 OR ucast (data ! 10),
                   RepeaterID = shl32 (data ! 11) 24 OR shl32 (data ! 12) 16
                                  OR shl32 (data ! 13) 8 OR ucast (data ! 14),
                   Timeslot = drop_bit 7 (data ! 15) AND 0x01,
                   CallType = drop_bit 6 (data ! 15) AND 0x01,
                   StreamID = shl32 (data ! 16) 24 OR shl32 (data ! 17) 16
                                OR shl32 (data ! 18) 8 OR ucast (data ! 19),
                   DataType = dataType,
                   BER = data ! 53,
                   RSSI = data ! 54,
                   Data_p = []\<rparr>
          in Inr (SetData p (copy_field 33 (take 33 (drop 20 data))))
        else Inl UnexpectedFrameType)"


section \<open>Repeater configuration codec (homebrew/homebrew.go)\<close>

text \<open>
  Modelled from the spec: the \<open>RepeaterConfiguration\<close> struct is declared outside the
  sources at hand; its fields and integer types are those of the composite literal in
  \<open>parseConfigData\<close>. A \<open>float32\<close> is kept as its 32 bits; the codec only hands it to the
  Go library.
\<close>

record RepeaterConfiguration =
  ID_c :: uint32
  Callsign :: string
  RXFreq :: uint32
  TXFreq :: uint32
  TXPower :: byte
  ColorCode :: byte
  Latitude :: uint32
  Longitude :: uint32
  Height :: uint16
  Location :: string
  Description :: string
  Slots :: byte
  URL :: string
  SoftwareID :: string
  PackageID :: string

text \<open>
  The functions of the Go standard library that the code calls and that are not integer
  or byte arithmetic, as parameters: \<open>FormatFloat x\<close> is the text of \<open>%f\<close> for a
  \<open>float32\<close> before padding, \<open>ParseFloat s\<close> the \<open>float32\<close> that
  \<open>float32(strconv.ParseFloat(s, 64))\<close> yields for a string without a space (errors
  discarded, as the source does), \<open>RuneCountInString\<close> the width \<open>fmt\<close> pads to,
  \<open>EqualFold\<close> the comparison of \<open>bytes.EqualFold\<close>.
\<close>

record golib =
  FormatFloat :: "uint32 \<Rightarrow> string"
  ParseFloat :: "string \<Rightarrow> uint32"
  RuneCountInString :: "string \<Rightarrow> nat"
  EqualFold :: "byte list \<Rightarrow> byte list \<Rightarrow> bool"

definition string_of :: "byte list \<Rightarrow> string" where
  "string_of bs = map (\<lambda>b. char_of (unat b)) bs"

definition space :: char where "space = CHR '' ''"

text \<open>\<open>strings.Trim(s, " ")\<close>: leading and trailing spaces removed.\<close>

definition Trim :: "string \<Rightarrow> string" where
  "Trim s = rev (dropWhile (\<lambda>c. c = space) (rev (dropWhile (\<lambda>c. c = space) s)))"

text \<open>
  \<open>lat, _ := strconv.ParseFloat(s, 64)\<close> followed by \<open>float32(lat)\<close>. No floating-point
  literal of Go contains a space: for such a string \<open>ParseFloat\<close> returns \<open>0\<close> and a
  syntax error, and the source keeps the \<open>0\<close>, whose bits are \<open>0\<close>. Every other string is
  left to the library.
\<close>

definition ParseFloat32 :: "golib \<Rightarrow> string \<Rightarrow> uint32" where
  "ParseFloat32 g s = (if space \<in> set s then 0 else ParseFloat g s)"

definition digit_char :: "nat \<Rightarrow> char" where
  "digit_char k = char_of (48 + k)"

definition is_digit :: "char \<Rightarrow> bool" where
  "is_digit c \<longleftrightarrow> 48 \<le> (of_char c :: nat) \<and> (of_char c :: nat) \<le> 57"

definition digit_val :: "char \<Rightarrow> nat" where
  "digit_val c = of_char c - 48"

text \<open>The decimal digits of an unsigned integer, as \<open>%d\<close> prints them.\<close>

fun decimal :: "nat \<Rightarrow> string" where
  "decimal k = (if k < 10 then [digit_char k] else decimal (k div 10) @ [digit_char (k mod 10)])"

declare decimal.simps [simp del]

text \<open>\<open>%0wd\<close> pads with zeros on the left, \<open>%-ws\<close> and \<open>%-0wf\<close> with spaces on the right.\<close>

definition pad_zero :: "nat \<Rightarrow> string \<Rightarrow> string" where
  "pad_zero w s = replicate (w - length s) (CHR ''0'') @ s"

definition pad_right :: "golib \<Rightarrow> nat \<Rightarrow> string \<Rightarrow> string" where
  "pad_right g w s = s @ replicate (w - RuneCountInString g s) space"

text \<open>
  The digit loop of \<open>strconv.ParseUint(s, 10, bitSize)\<close> with the error discarded: a
  character that is no digit gives \<open>0\<close>, a value above \<open>maxVal\<close> gives \<open>maxVal\<close>.
\<close>

fun parse_digits :: "nat \<Rightarrow> string \<Rightarrow> nat \<Rightarrow> nat" where
  "parse_digits maxVal [] acc = acc"
| "parse_digits maxVal (c # cs) acc =
     (if \<not> is_digit c then 0
      else let acc' = acc * 10 + digit_val c in
        if acc' > maxVal then maxVal else parse_digits maxVal cs acc')"

definition ParseUint :: "string \<Rightarrow> nat \<Rightarrow> nat" where
  "ParseUint s bitSize = (if s = [] then 0 else parse_digits (2 ^ bitSize - 1) s 0)"

text \<open>\<open>data[lo:hi]\<close> of a slice that is long enough.\<close>

definition sub :: "'a list \<Rightarrow> nat \<Rightarrow> nat \<Rightarrow> 'a list" where
  "sub xs lo hi = take (hi - lo) (drop lo xs)"

definition parseConfigData :: "golib \<Rightarrow> byte list \<Rightarrow> error + RepeaterConfiguration" where
  "parseConfigData g data =
     (if length data \<noteq> 302 then Inl (ExpectedBytes 302 (length data))
      else let config = data;
        height = ParseUint (string_of (sub config 55 58)) 32;
        rx = ParseUint (string_of (sub config 16 (16 + 9))) 32;
        tx = ParseUint (string_of (sub config 25 (25 + 9))) 32;
        power = ParseUint (string_of (sub config 34 (34 + 2))) 8;
        color = ParseUint (string_of (sub config 36 (36 + 2))) 8;
        lat = ParseFloat32 g (string_of (sub config 38 (38 + 8)));
        lon = ParseFloat32 g (string_of (sub config 46 (46 + 9)));
        slots = ParseUint (string_of (sub config 97 (97 + 1))) 8
      in Inr \<lparr>ID_c = shl32 (config ! 4) 24 OR shl32 (config ! 5) 16 OR shl32 (config ! 6) 8
                         OR ucast (config ! 7),
               Callsign = Trim (string_of (sub config 8 (8 + 8))),
               RXFreq = of_nat rx,
               TXFreq = of_nat tx,
               TXPower = of_nat power,
               ColorCode = of_nat color,
               Latitude = lat,
               Longitude = lon,
               Height = of_nat height,
               Location = Trim (string_of (sub config 58 (58 + 20))),
               Description = Trim (string_of (sub config 78 (78 + 19))),
               Slots = of_nat slots,
               URL = Trim (string_of (sub config 98 (98 + 124))),
               SoftwareID = Trim (string_of (sub config 222 (222 + 40))),
               PackageID = Trim (string_of (sub config 262 (262 + 40)))\<rparr>)"

text \<open>
  The first part of \<open>buildConfigData\<close>: the assignments to the fields of \<open>c\<close>, which is a
  pointer, so they change the caller's configuration.
\<close>

definition clamp_config :: "dmr \<Rightarrow> RepeaterConfiguration \<Rightarrow> RepeaterConfiguration" where
  "clamp_config d c0 =
     (let c1 = (if ColorCode c0 < 1 then c0\<lparr>ColorCode := 1\<rparr> else c0);
          c2 = (if ColorCode c1 > 15 then c1\<lparr>ColorCode := 15\<rparr> else c1);
          c3 = (if TXPower c2 > 99 then c2\<lparr>TXPower := 99\<rparr> else c2);
          c4 = (if Slots c3 > 4 then c3\<lparr>Slots := 4\<rparr> else c3);
          c5 = (if SoftwareID c4 = [] then c4\<lparr>SoftwareID := dmr_SoftwareID d\<rparr> else c4);
          c6 = (if PackageID c5 = [] then c5\<lparr>PackageID := dmr_PackageID d\<rparr> else c5)
      in c6)"

text \<open>The second part: the 302 bytes, in the order of their offsets.\<close>

definition encode_config :: "golib \<Rightarrow> RepeaterConfiguration \<Rightarrow> byte list" where
  "encode_config g c =
     (let lat0 = pad_right g 8 (FormatFloat g (Latitude c));
          lat = (if length lat0 > 8 then take 8 lat0 else lat0);
          lon0 = pad_right g 9 (FormatFloat g (Longitude c));
          lon = (if length lon0 > 9 then take 9 lon0 else lon0)
      in RepeaterConfig
         @ [byte_at 24 (ID_c c), byte_at 16 (ID_c c), byte_at 8 (ID_c c), byte_at 0 (ID_c c)]
         @ copy_field 8 (bytes_of (pad_right g 8 (Callsign c)))
         @ copy_field 9 (bytes_of (pad_zero 9 (decimal (unat (RXFreq c)))))
         @ copy_field 9 (bytes_of (pad_zero 9 (decimal (unat (TXFreq c)))))
         @ copy_field 2 (bytes_of (pad_zero 2 (decimal (unat (TXPower c)))))
         @ copy_field 2 (bytes_of (pad_zero 2 (decimal (unat (ColorCode c)))))
         @ copy_field 8 (bytes_of lat)
         @ copy_field 9 (bytes_of lon)
         @ copy_field 3 (bytes_of (pad_zero 3 (decimal (unat (Height c)))))
         @ copy_field 20 (bytes_of (pad_right g 20 (Location c)))
         @ copy_field 19 (bytes_of (pad_right g 19 (Description c)))
         @ copy_field 1 (bytes_of (pad_zero 1 (decimal (unat (Slots c)))))
         @ copy_field 124 (bytes_of (pad_right g 124 (URL c)))
         @ copy_field 40 (bytes_of (pad_right g 40 (SoftwareID c)))
         @ copy_field 40 (bytes_of (pad_right g 40 (PackageID c))))"

text \<open>\<open>buildConfigData\<close> returns the bytes; the configuration it leaves behind is the second
  component.\<close>

definition buildConfigData ::
  "golib \<Rightarrow> dmr \<Rightarrow> RepeaterConfiguration \<Rightarrow> byte list \<times> RepeaterConfiguration" where
  "buildConfigData g d c = (encode_config g (clamp_config d c), clamp_config d c)"

section \<open>Peers and the endpoint (homebrew/homebrew.go)\<close>

datatype AuthStatus = AuthNone | AuthBegin | AuthDone | AuthFailed

text \<open>
  A \<open>time.Time\<close> is a number of ticks; the zero value \<open>time.Time{}\<close> is \<open>0\<close>. A UDP address is
  the text its \<open>String()\<close> gives, which is the key of the address index.
\<close>

type_synonym time = nat
type_synonym addr = string
type_synonym ref = nat

text \<open>
  Modelled from the spec: the \<open>Peer\<close> struct is declared outside the sources at hand. Its
  fields are those that \<open>homebrew.go\<close> reads and writes and that the spec lists; the seven
  timestamps of \<open>Last\<close> are the ones the source assigns. A host callback is modelled by the
  error it returns.
\<close>

record Last_t =
  PacketSent :: time
  PacketReceived :: time
  PingSent :: time
  PingReceived :: time
  PongReceived :: time
  AuthSent :: time
  TGSubscribed :: time

record Peer =
  ID :: uint32
  Addr :: "addr option"
  AuthKey :: "byte list"
  Incoming :: bool
  Status :: AuthStatus
  TGID :: uint32
  Token :: "byte list"
  Config_p :: "RepeaterConfiguration option"
  UnlinkOnAuthFailure :: bool
  PacketReceived_cb :: "(Packet \<Rightarrow> error option) option"
  Last :: Last_t
  id_p :: "byte list"

text \<open>
  What a call takes from outside the program: the clock (one reading per call), the four
  random bytes of \<open>rand.Read\<close> (\<open>None\<close> when it fails), whether \<open>conn.WriteTo\<close> to an
  address fails, the dmr package and the Go library.

  Modelled from the spec: \<open>Peer.UpdateToken\<close> is outside the sources at hand; the spec
  treats it as a deterministic function of the auth key and the nonce, whose result is
  stored in \<open>Token\<close>. \<open>Peer.CheckRepeaterID\<close> is outside them too; the source only
  logs its result.
\<close>

record env =
  time_Now :: time
  rand_Read :: "byte list option"
  WriteTo_fails :: "addr \<Rightarrow> bool"
  UpdateToken :: "byte list \<Rightarrow> byte list \<Rightarrow> byte list"
  pkg :: dmr
  lib :: golib

text \<open>
  The endpoint. A \<open>*Peer\<close> is a reference into \<open>heap\<close>; \<open>nextRef\<close> is the next unused
  reference. The two Go maps are association lists, updated and deleted by key; the order
  of the address index stands for the order in which Go happens to range over the map.
  \<open>writes\<close> lists the calls of \<open>conn.WriteTo\<close>, oldest first.
\<close>

record Homebrew =
  Config :: RepeaterConfiguration
  Peer :: "(addr \<times> ref) list"
  PeerID :: "(uint32 \<times> ref) list"
  heap :: "ref \<Rightarrow> Peer"
  nextRef :: ref
  pf :: "(Packet \<Rightarrow> error option) option"
  id_h :: "byte list"
  last_h :: time
  writes :: "(addr option \<times> byte list) list"

definition zero_Last :: Last_t where
  "zero_Last = \<lparr>PacketSent = 0, PacketReceived = 0, PingSent = 0, PingReceived = 0,
                 PongReceived = 0, AuthSent = 0, TGSubscribed = 0\<rparr>"

definition zero_Peer :: Peer where
  "zero_Peer = \<lparr>ID = 0, Addr = None, AuthKey = [], Incoming = False, Status = AuthNone, TGID = 0,
                 Token = [], Config_p = None, UnlinkOnAuthFailure = False,
                 PacketReceived_cb = None, Last = zero_Last, id_p = []\<rparr>"

text \<open>\<open>New\<close>, without the socket.\<close>

definition New :: "RepeaterConfiguration \<Rightarrow> Homebrew" where
  "New config = \<lparr>Config = config, Peer = [], PeerID = [], heap = (\<lambda>_. zero_Peer), nextRef = 0,
                  pf = None, id_h = packRepeaterID (ID_c config), last_h = 0, writes = []\<rparr>"

text \<open>The host allocates a peer object: \<open>&Peer{...}\<close>.\<close>

definition alloc :: "Homebrew \<Rightarrow> Peer \<Rightarrow> Homebrew \<times> ref" where
  "alloc h p = (h\<lparr>heap := (heap h)(nextRef h := p), nextRef := Suc (nextRef h)\<rparr>, nextRef h)"

text \<open>An assignment through a peer pointer.\<close>

definition upd :: "Homebrew \<Rightarrow> ref \<Rightarrow> (Peer \<Rightarrow> Peer) \<Rightarrow> Homebrew" where
  "upd h r f = h\<lparr>heap := (heap h)(r := f (heap h r))\<rparr>"

definition set_Last :: "(Last_t \<Rightarrow> Last_t) \<Rightarrow> Peer \<Rightarrow> Peer" where
  "set_Last f p = p\<lparr>Last := f (Last p)\<rparr>"

text \<open>\<open>(*net.UDPAddr).String()\<close>; a nil address prints as \<open><nil>\<close>.\<close>

definition addr_String :: "addr option \<Rightarrow> string" where
  "addr_String a = (case a of None \<Rightarrow> ''<nil>'' | Some s \<Rightarrow> s)"

definition getPeer :: "Homebrew \<Rightarrow> uint32 \<Rightarrow> ref option" where
  "getPeer h i = map_of (PeerID h) i"

definition getPeerByAddr :: "Homebrew \<Rightarrow> addr \<Rightarrow> ref option" where
  "getPeerByAddr h a = map_of (Peer h) a"

definition getPeers :: "Homebrew \<Rightarrow> ref list" where
  "getPeers h = map snd (Peer h)"

text \<open>
  \<open>WriteToPeer\<close>: stamps \<open>PacketSent\<close> and calls \<open>conn.WriteTo\<close>, whose error it returns. A
  write to a nil address fails.
\<close>

definition WriteToPeer :: "env \<Rightarrow> Homebrew \<Rightarrow> byte list \<Rightarrow> ref option \<Rightarrow> error option \<times> Homebrew" where
  "WriteToPeer e h b peer =
     (case peer of
        None \<Rightarrow> (Some WriteToNilPeer, h)
      | Some r \<Rightarrow>
          let h1 = upd h r (set_Last (\<lambda>l. l\<lparr>PacketSent := time_Now e\<rparr>));
              a = Addr (heap h1 r);
              h2 = h1\<lparr>writes := writes h1 @ [(a, b)]\<rparr>
          in (case a of
                None \<Rightarrow> (Some WriteFailed, h2)
              | Some s \<Rightarrow> (if WriteTo_fails e s then Some WriteFailed else None, h2)))"

definition checkRepeaterID :: "env \<Rightarrow> Homebrew \<Rightarrow> byte list \<Rightarrow> bool" where
  "checkRepeaterID e h i = EqualFold (lib e) i (id_h h)"

definition handleAuth :: "env \<Rightarrow> Homebrew \<Rightarrow> ref \<Rightarrow> error option \<times> Homebrew" where
  "handleAuth e h r =
     (if \<not> Incoming (heap h r) then
        let h1 = upd h r (set_Last (\<lambda>l. l\<lparr>PacketReceived := time_Now e\<rparr>)) in
        (case Status (heap h1 r) of
           AuthNone \<Rightarrow>
             let h2 = upd h1 r (set_Last (\<lambda>l. l\<lparr>AuthSent := time_Now e\<rparr>))
             in WriteToPeer e h2 (RepeaterLogin @ id_h h2) (Some r)
         | AuthBegin \<Rightarrow>
             WriteToPeer e h1 (RepeaterKey @ id_h h1 @ Token (heap h1 r)) (Some r)
         | _ \<Rightarrow> (None, h1))
      else (None, h))"

text \<open>\<open>Link\<close>: the checks, the reset of the state, the registration in both indexes, and the
  start of the authentication for an outgoing peer.\<close>

definition Link :: "env \<Rightarrow> Homebrew \<Rightarrow> ref option \<Rightarrow> error option \<times> Homebrew" where
  "Link e h peer =
     (case peer of
        None \<Rightarrow> (Some PeerNil, h)
      | Some r \<Rightarrow>
          if Addr (heap h r) = None then (Some PeerAddrNil, h)
          else if length (AuthKey (heap h r)) = 0 then (Some PeerAuthKeyNil, h)
          else
            let h1 = upd h r (set_Last (\<lambda>l. l\<lparr>PacketSent := 0\<rparr>));
                h2 = upd h1 r (set_Last (\<lambda>l. l\<lparr>PacketReceived := 0\<rparr>));
                h3 = upd h2 r (set_Last (\<lambda>l. l\<lparr>PingSent := 0\<rparr>));
                h4 = upd h3 r (set_Last (\<lambda>l. l\<lparr>PongReceived := 0\<rparr>));
                h5 = upd h4 r (\<lambda>p. p\<lparr>id_p := packRepeaterID (ID p)\<rparr>);
                h6 = h5\<lparr>Peer := AList.update (addr_String (Addr (heap h5 r))) r (Peer h5)\<rparr>;
                h7 = h6\<lparr>PeerID := AList.update (ID (heap h6 r)) r (PeerID h6)\<rparr>
            in if Incoming (heap h7 r) then (None, h7) else handleAuth e h7 r)"

definition Unlink :: "Homebrew \<Rightarrow> uint32 \<Rightarrow> error option \<times> Homebrew" where
  "Unlink h i =
     (case map_of (PeerID h) i of
        None \<Rightarrow> (Some (PeerNotLinked i), h)
      | Some r \<Rightarrow>
          let h1 = h\<lparr>Peer := AList.delete (addr_String (Addr (heap h r))) (Peer h)\<rparr>;
              h2 = h1\<lparr>PeerID := AList.delete i (PeerID h1)\<rparr>
          in (None, h2))"

text \<open>The loop of \<open>SendTG\<close> over the snapshot of the peers; it stops at the first failed write.\<close>

fun SendTG_loop :: "env \<Rightarrow> byte list \<Rightarrow> Packet \<Rightarrow> uint32 \<Rightarrow> ref list \<Rightarrow> Homebrew \<Rightarrow> error option \<times> Homebrew" where
  "SendTG_loop e data p peerID [] h = (None, h)"
| "SendTG_loop e data p peerID (toPeer # rest) h =
     (if ID (heap h toPeer) = peerID then SendTG_loop e data p peerID rest h
      else if TGID (heap h toPeer) = DstID p then
        (case WriteToPeer e h data (Some toPeer) of
           (Some err, h1) \<Rightarrow> (Some err, h1)
         | (None, h1) \<Rightarrow> SendTG_loop e data p peerID rest h1)
      else SendTG_loop e data p peerID rest h)"

definition SendTG :: "env \<Rightarrow> Homebrew \<Rightarrow> Packet \<Rightarrow> ref \<Rightarrow> error option \<times> Homebrew" where
  "SendTG e h p peer =
     SendTG_loop e (buildData (pkg e) p (ID_c (Config h))) p (ID (heap h peer)) (getPeers h) h"

definition handlePacket :: "env \<Rightarrow> Homebrew \<Rightarrow> Packet \<Rightarrow> ref \<Rightarrow> error option \<times> Homebrew" where
  "handlePacket e h p peer =
     (let h1 = h\<lparr>last_h := time_Now e\<rparr> in
      case PacketReceived_cb (heap h1 peer) of
        Some f \<Rightarrow> (f p, h1)
      | None \<Rightarrow>
          (case pf h1 of
             None \<Rightarrow>
               if CallType p = CallTypeGroup (pkg e) then
                 let h2 = upd h1 peer (\<lambda>q. q\<lparr>TGID := DstID p\<rparr>);
                     h3 = upd h2 peer (set_Last (\<lambda>l. l\<lparr>TGSubscribed := time_Now e\<rparr>))
                 in SendTG e h3 p peer
               else (None, h1)
           | Some f \<Rightarrow> (f p, h1)))"

section \<open>Datagram handling (homebrew/homebrew.go)\<close>

text \<open>
  A Go slice: its elements, and the bytes of the backing array between its length and its
  capacity, which a slice expression \<open>data[:k]\<close> can reach. The listener passes
  \<open>data[:n]\<close> of a buffer of 302 bytes that it reuses.
\<close>

record slice =
  elems :: "byte list"
  spare :: "byte list"

definition slice_len :: "slice \<Rightarrow> nat" where
  "slice_len d = length (elems d)"

definition slice_cap :: "slice \<Rightarrow> nat" where
  "slice_cap d = length (elems d) + length (spare d)"

text \<open>\<open>data[:k]\<close> panics beyond the capacity, \<open>data[j:]\<close> beyond the length.\<close>

definition slice_to :: "slice \<Rightarrow> nat \<Rightarrow> panic + byte list" where
  "slice_to d k =
     (if k \<le> slice_cap d then Inr (take k (elems d @ spare d)) else Inl SliceBoundsOutOfRange)"

definition slice_from :: "slice \<Rightarrow> nat \<Rightarrow> panic + byte list" where
  "slice_from d j =
     (if j \<le> slice_len d then Inr (drop j (elems d)) else Inl SliceBoundsOutOfRange)"

definition slice_range :: "slice \<Rightarrow> nat \<Rightarrow> nat \<Rightarrow> panic + byte list" where
  "slice_range d j k =
     (if j \<le> k \<and> k \<le> slice_cap d then Inr (sub (elems d @ spare d) j k)
      else Inl SliceBoundsOutOfRange)"

text \<open>Sequencing of steps that can panic.\<close>

definition bind_p :: "panic + 'a \<Rightarrow> ('a \<Rightarrow> panic + 'b) \<Rightarrow> panic + 'b" where
  "bind_p m f = (case m of Inl p \<Rightarrow> Inl p | Inr x \<Rightarrow> f x)"

type_synonym outcome = "panic + (error option \<times> Homebrew)"

text \<open>\<open>printConfig\<close> reads the fields of its argument: a nil configuration panics.\<close>

definition printConfig :: "RepeaterConfiguration option \<Rightarrow> panic + unit" where
  "printConfig c = (case c of None \<Rightarrow> Inl NilDereference | Some _ \<Rightarrow> Inr ())"

text \<open>The peer is not authenticated and is incoming: lines 367 to 425.\<close>

definition auth_incoming :: "env \<Rightarrow> Homebrew \<Rightarrow> ref \<Rightarrow> slice \<Rightarrow> outcome" where
  "auth_incoming e h peer data =
     (case Status (heap h peer) of
        AuthNone \<Rightarrow>
          bind_p (slice_to data 4) (\<lambda>d4.
            if d4 = RepeaterLogin then
              bind_p (slice_range data 4 8) (\<lambda>_.
                case rand_Read e of
                  None \<Rightarrow> Inr (WriteToPeer e h (MasterNAK @ id_h h) (Some peer))
                | Some rnd \<Rightarrow>
                    let nonce = copy_field 4 rnd;
                        h1 = upd h peer (\<lambda>p. p\<lparr>Token := UpdateToken e (AuthKey p) nonce\<rparr>);
                        h2 = upd h1 peer (\<lambda>p. p\<lparr>Status := AuthBegin\<rparr>)
                    in Inr (WriteToPeer e h2 (RepeaterACK @ nonce) (Some peer)))
            else Inr (None, h))
      | AuthBegin \<Rightarrow>
          bind_p (slice_to data 4) (\<lambda>d4.
            if d4 = RepeaterKey then
              bind_p (slice_range data 4 8) (\<lambda>_.
                if slice_len data \<noteq> 40 then
                  let h1 = upd h peer (\<lambda>p. p\<lparr>Status := AuthNone\<rparr>)
                  in Inr (WriteToPeer e h1 (MasterNAK @ id_h h1) (Some peer))
                else
                  bind_p (slice_from data 8) (\<lambda>tok.
                    if tok \<noteq> Token (heap h peer) then
                      let h1 = upd h peer (\<lambda>p. p\<lparr>Status := AuthNone\<rparr>)
                      in Inr (WriteToPeer e h1 (MasterNAK @ id_h h1) (Some peer))
                    else
                      let h1 = upd h peer (\<lambda>p. p\<lparr>Status := AuthDone\<rparr>);
                          h2 = upd h1 peer (set_Last (\<lambda>l. l\<lparr>PingReceived := time_Now e\<rparr>));
                          h3 = upd h2 peer (set_Last (\<lambda>l. l\<lparr>PongReceived := time_Now e\<rparr>))
                      in Inr (WriteToPeer e h3 (RepeaterACK @ id_h h3) (Some peer))))
            else Inr (None, h))
      | _ \<Rightarrow> Inr (None, h))"

text \<open>A master refused the login: both \<open>MSTNAK\<close> cases of the outgoing role.\<close>

definition refused :: "Homebrew \<Rightarrow> ref \<Rightarrow> Homebrew" where
  "refused h peer =
     (let h1 = upd h peer (\<lambda>p. p\<lparr>Status := AuthFailed\<rparr>)
      in if UnlinkOnAuthFailure (heap h1 peer) then snd (Unlink h1 (ID (heap h1 peer))) else h1)"

text \<open>A master accepted the login: the \<open>MSTACK\<close> and \<open>RPTACK\<close> cases of state Begin, which
  encode the endpoint's configuration and thereby change it.\<close>

definition accepted :: "env \<Rightarrow> Homebrew \<Rightarrow> ref \<Rightarrow> error option \<times> Homebrew" where
  "accepted e h peer =
     (let h1 = upd h peer (\<lambda>p. p\<lparr>Status := AuthDone\<rparr>);
          h2 = upd h1 peer (set_Last (\<lambda>l. l\<lparr>PingSent := time_Now e\<rparr>));
          h3 = upd h2 peer (set_Last (\<lambda>l. l\<lparr>PongReceived := time_Now e\<rparr>));
          (b, c) = buildConfigData (lib e) (pkg e) (Config h3);
          h4 = h3\<lparr>Config := c\<rparr>
      in WriteToPeer e h4 b (Some peer))"

text \<open>The peer is not authenticated and is outgoing: lines 426 to 484.\<close>

definition auth_outgoing :: "env \<Rightarrow> Homebrew \<Rightarrow> ref \<Rightarrow> slice \<Rightarrow> outcome" where
  "auth_outgoing e h peer data =
     bind_p (slice_range data 6 10) (\<lambda>_.
       case Status (heap h peer) of
         AuthNone \<Rightarrow>
           bind_p (slice_to data 6) (\<lambda>d6.
             if d6 = RepeaterACK then
               bind_p (slice_range data 6 10) (\<lambda>nonce.
                 let h1 = upd h peer (\<lambda>p. p\<lparr>Status := AuthBegin\<rparr>);
                     h2 = upd h1 peer (\<lambda>p. p\<lparr>Token := UpdateToken e (AuthKey p) nonce\<rparr>)
                 in Inr (handleAuth e h2 peer))
             else if d6 = MasterNAK then Inr (None, refused h peer)
             else Inr (None, h))
       | AuthBegin \<Rightarrow>
           bind_p (slice_to data 6) (\<lambda>d6.
             if d6 = MasterACK then Inr (accepted e h peer)
             else if d6 = MasterNAK then Inr (None, refused h peer)
             else if d6 = RepeaterACK then Inr (accepted e h peer)
             else Inr (None, h))
       | _ \<Rightarrow> Inr (None, h))"

text \<open>The peer is authenticated and incoming: lines 487 to 519. A case
  \<open>len(data) == 10 && bytes.Equal(data[:6], ...)\<close> slices only when the length fits.\<close>

definition done_incoming :: "env \<Rightarrow> Homebrew \<Rightarrow> ref \<Rightarrow> slice \<Rightarrow> outcome" where
  "done_incoming e h peer data =
     bind_p (slice_to data 4) (\<lambda>d4.
       if d4 = DMRData then
         (case parseData (pkg e) (elems data) of
            Inl err \<Rightarrow> Inr (Some err, h)
          | Inr p \<Rightarrow> Inr (handlePacket e h p peer))
       else if slice_len data = 10 \<and> slice_to data 6 = Inr MasterACK then Inr (None, h)
       else if slice_len data = 11 \<and> slice_to data 7 = Inr MasterPing then
         bind_p (slice_from data 7) (\<lambda>rest.
           let h1 = upd h peer (set_Last (\<lambda>l. l\<lparr>PingReceived := time_Now e\<rparr>))
           in Inr (WriteToPeer e h1 (RepeaterPong @ rest) (Some peer)))
       else if slice_len data = 11 \<and> slice_to data 7 = Inr RepeaterPing then
         bind_p (slice_from data 7) (\<lambda>rest.
           let h1 = upd h peer (set_Last (\<lambda>l. l\<lparr>PingReceived := time_Now e\<rparr>))
           in Inr (WriteToPeer e h1 (MasterPong @ rest) (Some peer)))
       else if d4 = RepeaterConfig then
         (let c = (case parseConfigData (lib e) (elems data) of
                     Inl _ \<Rightarrow> None | Inr c \<Rightarrow> Some c);
              h1 = upd h peer (\<lambda>p. p\<lparr>Config_p := c\<rparr>)
          in bind_p (printConfig (Config_p (heap h1 peer))) (\<lambda>_.
               Inr (WriteToPeer e h1 (RepeaterACK @ id_h h1) (Some peer))))
       else Inr (None, h))"

text \<open>A keepalive answer of the master, checked against our id (lines 529 to 569).\<close>

definition checked :: "env \<Rightarrow> Homebrew \<Rightarrow> slice \<Rightarrow> nat \<Rightarrow> nat \<Rightarrow> outcome \<Rightarrow> outcome" where
  "checked e h data lo hi rest =
     bind_p (slice_range data lo hi) (\<lambda>i.
       if \<not> checkRepeaterID e h i then Inr (None, h) else rest)"

text \<open>The peer is authenticated and outgoing: lines 520 to 576.\<close>

definition done_outgoing :: "env \<Rightarrow> Homebrew \<Rightarrow> ref \<Rightarrow> slice \<Rightarrow> outcome" where
  "done_outgoing e h peer data =
     bind_p (slice_to data 4) (\<lambda>d4.
       if d4 = DMRData then
         (case parseData (pkg e) (elems data) of
            Inl err \<Rightarrow> Inr (Some err, h)
          | Inr p \<Rightarrow> Inr (handlePacket e h p peer))
       else if slice_len data = 10 \<and> slice_to data 6 = Inr MasterACK then
         checked e h data 6 10
           (let h1 = upd h peer (set_Last (\<lambda>l. l\<lparr>PingSent := time_Now e\<rparr>))
            in Inr (WriteToPeer e h1 (MasterPing @ id_h h1) (Some peer)))
       else if slice_len data = 10 \<and> slice_to data 6 = Inr MasterNAK then
         checked e h data 6 10
           (let h1 = upd h peer (\<lambda>p. p\<lparr>Status := AuthFailed\<rparr>)
            in Inr (handleAuth e h1 peer))
       else if slice_len data = 10 \<and> slice_to data 6 = Inr RepeaterACK then
         checked e h data 6 10
           (let h1 = upd h peer (set_Last (\<lambda>l. l\<lparr>PingSent := time_Now e\<rparr>))
            in Inr (WriteToPeer e h1 (MasterPing @ id_h h1) (Some peer)))
       else if slice_len data = 11 \<and> slice_to data 7 = Inr MasterPong then
         checked e h data 7 11
           (Inr (None, upd h peer (set_Last (\<lambda>l. l\<lparr>PongReceived := time_Now e\<rparr>))))
       else if slice_len data = 11 \<and> slice_to data 7 = Inr RepeaterPong then
         checked e h data 7 11
           (Inr (None, upd h peer (set_Last (\<lambda>l. l\<lparr>PongReceived := time_Now e\<rparr>))))
       else Inr (None, h))"

text \<open>\<open>handle\<close> from the length check on (lines 354 to 579), for the peer found.\<close>

definition handle_peer :: "env \<Rightarrow> Homebrew \<Rightarrow> slice \<Rightarrow> ref option \<Rightarrow> outcome" where
  "handle_peer e h data found =
     (if slice_len data < 8 then Inr (None, h)
      else case found of
        None \<Rightarrow> Inl NilDereference
      | Some peer \<Rightarrow>
          let h1 = upd h peer (set_Last (\<lambda>l. l\<lparr>PacketReceived := time_Now e\<rparr>)) in
          if Status (heap h1 peer) \<noteq> AuthDone then
            bind_p (slice_to data 4) (\<lambda>d4.
              if d4 = DMRData then Inr (None, h1)
              else if Incoming (heap h1 peer) then auth_incoming e h1 peer data
              else auth_outgoing e h1 peer data)
          else if Incoming (heap h1 peer) then done_incoming e h1 peer data
          else done_outgoing e h1 peer data)"

text \<open>The peer that \<open>handle\<close> creates for a login from an unknown address.\<close>

definition newPeer :: "uint32 \<Rightarrow> addr \<Rightarrow> Peer" where
  "newPeer repeaterID remote =
     zero_Peer\<lparr>ID := repeaterID, Addr := Some remote, Config_p := None,
               AuthKey := bytes_of ''passw0rd'', Incoming := True, Status := AuthNone,
               TGID := 446\<rparr>"

text \<open>\<open>handle\<close>: the lookup by address and the implicit creation (lines 329 to 352), then the
  rest.\<close>

definition handle :: "env \<Rightarrow> Homebrew \<Rightarrow> addr \<Rightarrow> slice \<Rightarrow> outcome" where
  "handle e h remote data =
     (case getPeerByAddr h remote of
        None \<Rightarrow>
          bind_p (slice_to data 4) (\<lambda>d4.
            if d4 = RepeaterLogin then
              bind_p (slice_from data 4) (\<lambda>rest.
                bind_p (unpackRepeaterID rest) (\<lambda>repeaterID.
                  let (h1, r) = alloc h (newPeer repeaterID remote);
                      h2 = snd (Link e h1 (Some r))
                  in handle_peer e h2 data (getPeerByAddr h2 remote)))
            else Inr (None, h))
      | Some peer \<Rightarrow> handle_peer e h data (Some peer))"

text \<open>A datagram as the listener hands it over: \<open>n\<close> bytes read into the 302-byte buffer.\<close>

definition received :: "byte list \<Rightarrow> byte list \<Rightarrow> slice" where
  "received bytes stale = \<lparr>elems = take 302 bytes, spare = take (302 - length bytes) stale @ replicate (302 - length bytes - length stale) 0\<rparr>"

section \<open>Example values\<close>

definition example_dmr :: dmr where
  "example_dmr = \<lparr>VoiceBurstA = 10, CallTypePrivate = 0, CallTypeGroup = 1,
                   dmr_SoftwareID = ''20210921'', dmr_PackageID = ''go-dmr''\<rparr>"

definition example_packet :: Packet where
  "example_packet = \<lparr>Sequence = 7, SrcID = 0x204123, DstID = 0x0000CC, RepeaterID = 0,
                      Timeslot = 1, CallType = 1, StreamID = 0xDEADBEEF, DataType = 12,
                      BER = 3, RSSI = 40, Data_p = replicate 33 0x55\<rparr>"

text \<open>The Go library at the values that the examples use: the \<open>float32\<close> values \<open>1.0\<close>
  (bits \<open>3F800000\<close>) and \<open>0.0\<close> print as \<open>1.000000\<close> and \<open>0.000000\<close> and are read back
  from these texts; the strings are ASCII, one rune per byte.\<close>

definition example_golib :: golib where
  "example_golib =
     \<lparr>FormatFloat = (\<lambda>x. if x = 0x3F800000 then ''1.000000'' else ''0.000000''),
      ParseFloat = (\<lambda>s. if s = ''1.000000'' then 0x3F800000 else 0),
      RuneCountInString = length, EqualFold = (=)\<rparr>"

definition example_env :: env where
  "example_env = \<lparr>time_Now = 1000, rand_Read = Some [0xDE, 0xAD, 0xBE, 0xEF],
                   WriteTo_fails = (\<lambda>_. False),
                   UpdateToken = (\<lambda>key nonce. take 32 (nonce @ key @ replicate 32 0)),
                   pkg = example_dmr, lib = example_golib\<rparr>"

definition example_config :: RepeaterConfiguration where
  "example_config = \<lparr>ID_c = 0x00312000, Callsign = ''N0CALL'', RXFreq = 438000000,
                      TXFreq = 430400000, TXPower = 120, ColorCode = 0, Latitude = 0,
                      Longitude = 0, Height = 12, Location = ''Nowhere'',
                      Description = ''test'', Slots = 9, URL = ''http://example.org'',
                      SoftwareID = [], PackageID = []\<rparr>"

text \<open>The same configuration at longitude \<open>1.0\<close>.\<close>

definition east_config :: RepeaterConfiguration where
  "east_config = example_config\<lparr>Longitude := 0x3F800000\<rparr>"

text \<open>A peer object of the host with stale timestamps, to be linked as incoming.\<close>

definition stale_peer :: Peer where
  "stale_peer = zero_Peer\<lparr>ID := 0x00312345, Addr := Some ''192.0.2.7:62031'',
                          AuthKey := bytes_of ''secret'', Incoming := True,
                          Last := \<lparr>PacketSent = 1, PacketReceived = 2, PingSent = 3,
                                   PingReceived = 4, PongReceived = 5, AuthSent = 6,
                                   TGSubscribed = 7\<rparr>\<rparr>"

text \<open>A master that the endpoint logs in to.\<close>

definition master_peer :: Peer where
  "master_peer = zero_Peer\<lparr>ID := 0x00002040, Addr := Some ''198.51.100.1:62030'',
                           AuthKey := bytes_of ''secret'', Incoming := False\<rparr>"

text \<open>The endpoint after the host has created and linked the master.\<close>

definition outgoing_endpoint :: Homebrew where
  "outgoing_endpoint =
     (let (h, r) = alloc (New example_config) master_peer in snd (Link example_env h (Some r)))"

text \<open>The endpoint after a login \<open>RPTL\<close> with id 1 from an unknown address has been handled.\<close>

definition after_login :: "Homebrew \<Rightarrow> addr \<Rightarrow> Homebrew" where
  "after_login h remote =
     (case handle example_env h remote (received (RepeaterLogin @ [0, 0, 0, 1]) []) of
        Inl _ \<Rightarrow> h
      | Inr (_, h') \<Rightarrow> h')"

definition begin_endpoint :: Homebrew where
  "begin_endpoint = after_login (New example_config) ''192.0.2.7:62031''"

definition two_logins :: Homebrew where
  "two_logins = after_login begin_endpoint ''203.0.113.9:62031''"

text \<open>Presence of a peer object in the address index and in the id index.\<close>

definition in_Peer :: "Homebrew \<Rightarrow> ref \<Rightarrow> bool" where
  "in_Peer h r \<longleftrightarrow> r \<in> ran (map_of (Peer h))"

definition in_PeerID :: "Homebrew \<Rightarrow> ref \<Rightarrow> bool" where
  "in_PeerID h r \<longleftrightarrow> r \<in> ran (map_of (PeerID h))"

text \<open>The endpoint after the host has created the stale peer and linked it.\<close>

definition incoming_endpoint :: Homebrew where
  "incoming_endpoint = snd (Link example_env (fst (alloc (New example_config) stale_peer)) (Some 0))"

text \<open>A second peer object of the host, with the address of the stale peer and another id,
  and the endpoint after the host has linked both.\<close>

definition second_peer :: Peer where
  "second_peer = stale_peer\<lparr>ID := 0x00312346\<rparr>"

definition two_links :: Homebrew where
  "two_links = snd (Link example_env (fst (alloc incoming_endpoint second_peer)) (Some 1))"

text \<open>An outgoing peer object with stale timestamps whose login had been accepted, to be
  linked again.\<close>

definition done_peer :: Peer where
  "done_peer = stale_peer\<lparr>Incoming := False, Status := AuthDone\<rparr>"

text \<open>Datagrams of that peer: its login, the key with the token of the nonce
  \<open>DE AD BE EF\<close>, a key whose token differs in its first byte, and a key cut after the
  verb.\<close>

definition example_login :: slice where
  "example_login = received (RepeaterLogin @ [0x00, 0x31, 0x23, 0x45]) []"

definition example_token :: "byte list" where
  "example_token = [0xDE, 0xAD, 0xBE, 0xEF] @ bytes_of ''secret'' @ replicate 22 0"

definition good_key :: slice where
  "good_key = received (RepeaterKey @ [0x00, 0x31, 0x23, 0x45] @ example_token) []"

definition bad_key :: slice where
  "bad_key = received (RepeaterKey @ [0x00, 0x31, 0x23, 0x45] @ example_token [0 := 0xDF]) []"

definition short_key :: slice where
  "short_key = received RepeaterKey []"

text \<open>Datagrams of the master: its answer to the login, with a nonce, and its answer to the
  key.\<close>

definition example_nonce_ack :: slice where
  "example_nonce_ack = received (RepeaterACK @ [0xDE, 0xAD, 0xBE, 0xEF]) []"

definition example_ack :: slice where
  "example_ack = received (MasterACK @ [0x00, 0x31, 0x20, 0x00]) []"

section \<open>Sequences of operations on the registry\<close>

text \<open>The repeater id that a login datagram of at least 8 bytes announces.\<close>

definition login_id :: "slice \<Rightarrow> uint32" where
  "login_id data = (case unpackRepeaterID (drop 4 (elems data)) of Inr i \<Rightarrow> i | Inl _ \<Rightarrow> 0)"

text \<open>
  What happens to an endpoint: the host creates a peer object, sets the packet callback,
  calls \<open>Link\<close> or \<open>Unlink\<close>, or the listener handles a datagram. A panic ends the run.
\<close>

datatype event =
    EvAlloc Peer
  | EvSetPacketFunc "(Packet \<Rightarrow> error option) option"
  | EvLink "ref option"
  | EvUnlink uint32
  | EvHandle addr slice

fun apply_event :: "env \<Rightarrow> Homebrew \<Rightarrow> event \<Rightarrow> panic + Homebrew" where
  "apply_event e h (EvAlloc p) = Inr (fst (alloc h p))"
| "apply_event e h (EvSetPacketFunc f) = Inr (h\<lparr>pf := f\<rparr>)"
| "apply_event e h (EvLink peer) = Inr (snd (Link e h peer))"
| "apply_event e h (EvUnlink i) = Inr (snd (Unlink h i))"
| "apply_event e h (EvHandle remote data) =
     (case handle e h remote data of Inl p \<Rightarrow> Inl p | Inr (_, h') \<Rightarrow> Inr h')"

text \<open>A key of an index is free for a peer object when it is unused or already holds that
  object.\<close>

definition key_free :: "('k \<times> ref) list \<Rightarrow> 'k \<Rightarrow> ref \<Rightarrow> bool" where
  "key_free m k r \<longleftrightarrow> map_of m k = None \<or> map_of m k = Some r"

text \<open>\<open>Link\<close> is given a peer object that exists.\<close>

fun exists_peer :: "Homebrew \<Rightarrow> event \<Rightarrow> bool" where
  "exists_peer h (EvLink (Some r)) \<longleftrightarrow> r < nextRef h"
| "exists_peer h _ \<longleftrightarrow> True"

text \<open>
  An operation registers no peer under an address that another peer object holds: a
  \<open>Link\<close> that passes its checks finds the peer's address free. (A login creates a peer
  only for an address that is not registered, so that a datagram cannot take an address.)
\<close>

fun addr_free :: "Homebrew \<Rightarrow> event \<Rightarrow> bool" where
  "addr_free h (EvLink (Some r)) \<longleftrightarrow>
     (Addr (heap h r) \<noteq> None \<and> AuthKey (heap h r) \<noteq> [] \<longrightarrow>
        key_free (Peer h) (addr_String (Addr (heap h r))) r)"
| "addr_free h _ \<longleftrightarrow> True"

text \<open>
  An operation registers no peer under an id that another peer object holds: a \<open>Link\<close>
  that passes its checks finds the peer's id free, and a login from an unknown address,
  which creates a peer, announces an id that is not registered.
\<close>

fun id_free :: "Homebrew \<Rightarrow> event \<Rightarrow> bool" where
  "id_free h (EvLink (Some r)) \<longleftrightarrow>
     (Addr (heap h r) \<noteq> None \<and> AuthKey (heap h r) \<noteq> [] \<longrightarrow>
        key_free (PeerID h) (ID (heap h r)) r)"
| "id_free h (EvHandle remote data) \<longleftrightarrow>
     (getPeerByAddr h remote = None \<and> slice_to data 4 = Inr RepeaterLogin \<and> 8 \<le> slice_len data
        \<longrightarrow> map_of (PeerID h) (login_id data) = None)"
| "id_free h _ \<longleftrightarrow> True"

definition no_clash :: "Homebrew \<Rightarrow> event \<Rightarrow> bool" where
  "no_clash h ev \<longleftrightarrow> addr_free h ev \<and> id_free h ev"

text \<open>The endpoints that operations meeting a condition reach from a new endpoint.\<close>

inductive reachable :: "(Homebrew \<Rightarrow> event \<Rightarrow> bool) \<Rightarrow> Homebrew \<Rightarrow> bool"
  for C :: "Homebrew \<Rightarrow> event \<Rightarrow> bool" where
  reachable_New: "reachable C (New c)"
| reachable_step:
    "reachable C h \<Longrightarrow> exists_peer h ev \<Longrightarrow> C h ev \<Longrightarrow> apply_event e h ev = Inr h'
       \<Longrightarrow> reachable C h'"

section \<open>Auxiliary definitions for the proofs\<close>

text \<open>The endpoint after \<open>WriteToPeer\<close> has stamped the peer and written the bytes.\<close>

definition stamp_sent :: "env \<Rightarrow> Homebrew \<Rightarrow> ref \<Rightarrow> byte list \<Rightarrow> Homebrew" where
  "stamp_sent e h r b =
     (upd h r (set_Last (\<lambda>l. l\<lparr>PacketSent := time_Now e\<rparr>)))
       \<lparr>writes := writes h @ [(Addr (heap h r), b)]\<rparr>"

text \<open>The endpoint after the reset and the registration of \<open>Link\<close>.\<close>

definition linked :: "Homebrew \<Rightarrow> ref \<Rightarrow> Homebrew" where
  "linked h r =
     (upd h r (\<lambda>p. p\<lparr>Last := (Last p)\<lparr>PacketSent := 0, PacketReceived := 0, PingSent := 0,
                                        PongReceived := 0\<rparr>,
                      id_p := packRepeaterID (ID p)\<rparr>))
       \<lparr>Peer := AList.update (addr_String (Addr (heap h r))) r (Peer h),
        PeerID := AList.update (ID (heap h r)) r (PeerID h)\<rparr>"

text \<open>The endpoint after an incoming peer's login has been accepted, before the answer.\<close>

definition begun :: "env \<Rightarrow> Homebrew \<Rightarrow> ref \<Rightarrow> byte list \<Rightarrow> Homebrew" where
  "begun e h peer nonce =
     upd (upd (upd h peer (set_Last (\<lambda>l. l\<lparr>PacketReceived := time_Now e\<rparr>)))
            peer (\<lambda>p. p\<lparr>Token := UpdateToken e (AuthKey p) nonce\<rparr>))
       peer (\<lambda>p. p\<lparr>Status := AuthBegin\<rparr>)"

text \<open>
  Every entry of an index points to a peer object that exists, under that object's own
  key. When addresses are kept free (\<open>ca\<close>), a peer object of the id index is in the address
  index; when ids are kept free (\<open>ci\<close>), a peer object of the address index is in the id
  index.
\<close>

definition indexes_agree ::
  "bool \<Rightarrow> bool \<Rightarrow> (addr \<rightharpoonup> ref) \<Rightarrow> (uint32 \<rightharpoonup> ref) \<Rightarrow> (ref \<Rightarrow> uint32) \<Rightarrow> (ref \<Rightarrow> addr option) \<Rightarrow> ref
     \<Rightarrow> bool" where
  "indexes_agree ca ci P Q I A n \<longleftrightarrow>
     (\<forall>a r. P a = Some r \<longrightarrow> r < n \<and> A r = Some a \<and> (ci \<longrightarrow> Q (I r) = Some r))
     \<and> (\<forall>i r. Q i = Some r \<longrightarrow> r < n \<and> I r = i \<and> (ca \<longrightarrow> (\<exists>a. A r = Some a \<and> P a = Some r)))"

definition registry_ok :: "bool \<Rightarrow> bool \<Rightarrow> Homebrew \<Rightarrow> bool" where
  "registry_ok ca ci h \<longleftrightarrow>
     indexes_agree ca ci (map_of (Peer h)) (map_of (PeerID h)) (\<lambda>r. ID (heap h r))
       (\<lambda>r. Addr (heap h r)) (nextRef h)"

text \<open>Two endpoints with the same indexes and the same ids and addresses of the peers.\<close>

definition same_registry :: "Homebrew \<Rightarrow> Homebrew \<Rightarrow> bool" where
  "same_registry h h' \<longleftrightarrow>
     Peer h' = Peer h \<and> PeerID h' = PeerID h \<and> nextRef h' = nextRef h
     \<and> (\<forall>r. ID (heap h' r) = ID (heap h r) \<and> Addr (heap h' r) = Addr (heap h r))"

text \<open>An outcome that, when it is a return, leaves the indexes in agreement.\<close>

definition pres :: "bool \<Rightarrow> bool \<Rightarrow> outcome \<Rightarrow> bool" where
  "pres ca ci out \<longleftrightarrow> (\<forall>err h'. out = Inr (err, h') \<longrightarrow> registry_ok ca ci h')"

section \<open>Facts about bytes and words\<close>

lemma u32_bytes:
  "shl32 (byte_at 24 x) 24 OR shl32 (byte_at 16 x) 16 OR shl32 (byte_at 8 x) 8
     OR ucast (byte_at 0 x) = x"
proof (rule bit_eqI)
  fix n
  assume "possible_bit TYPE(uint32) n"
  then have n: "n < 32" by (simp add: possible_bit_def)
  consider "n < 8" | "8 \<le> n" "n < 16" | "16 \<le> n" "n < 24" | "24 \<le> n" by linarith
  then show "bit (shl32 (byte_at 24 x) 24 OR shl32 (byte_at 16 x) 16 OR shl32 (byte_at 8 x) 8
                    OR ucast (byte_at 0 x)) n = bit x n"
    using n by cases (auto simp add: shl32_def byte_at_def bit_simps)
qed

lemma bit_lt_2p24:
  fixes x :: uint32
  assumes "x < 2 ^ 24" and "bit x n"
  shows "n < 24"
proof -
  have "x AND mask 24 = x" using assms(1) by (rule less_mask_eq)
  then have "bit (x AND mask 24) n" using assms(2) by simp
  then show ?thesis by (simp add: bit_simps)
qed

lemma u24_bytes:
  assumes "x < 2 ^ 24"
  shows "shl32 (byte_at 16 x) 16 OR shl32 (byte_at 8 x) 8 OR ucast (byte_at 0 x) = x"
proof (rule bit_eqI)
  fix n
  assume "possible_bit TYPE(uint32) n"
  then have n: "n < 32" by (simp add: possible_bit_def)
  consider "n < 8" | "8 \<le> n" "n < 16" | "16 \<le> n" "n < 24" | "24 \<le> n" by linarith
  then show "bit (shl32 (byte_at 16 x) 16 OR shl32 (byte_at 8 x) 8 OR ucast (byte_at 0 x)) n
               = bit x n"
    using n bit_lt_2p24 [OF assms, of n]
    by cases (auto simp add: shl32_def byte_at_def bit_simps)
qed

lemma byte_le_1: "(b::byte) \<le> 1 \<Longrightarrow> b = 0 \<or> b = 1"
  by (metis One_nat_def le_neq_trans less_one unsigned_eq_0_iff word_less_nat_alt unat_1)

lemma byte_lt_16:
  assumes "(b::byte) < 16"
  shows "b \<in> {0, 1, 2, 3, 4, 5, 6, 7, 8, 9, 10, 11, 12, 13, 14, 15}"
proof -
  have "unat b < 16" using assms by (simp add: word_less_nat_alt)
  then have "unat b \<in> set [0..<16]" by simp
  then have "(of_nat (unat b) :: byte) \<in> of_nat ` set [0..<16]" by (rule imageI)
  then show ?thesis by (simp add: upt_rec)
qed

section \<open>Talker alias codec\<close>

lemma movebit_negative_dst:
  "dstByte < 0 \<Longrightarrow> movebit src srcByte srcBit dst dstByte dstBit = Inl IndexOutOfRange"
  by (simp add: movebit_def index_ok_def Let_def)

text \<open>
  The first step of the loop of \<open>Bytes\<close>, at \<open>i = 7\<close>, writes to \<open>out[(7/8) - 1]\<close>, that is
  \<open>out[-1]\<close>: every header of format 7-bit panics.
\<close>

lemma Bytes_7bit_panics:
  "DataFormat t = Format7Bit \<Longrightarrow> Bytes t = Inl IndexOutOfRange"
  by (simp add: Bytes_def upto.simps movebit_negative_dst)

text \<open>
  Claim C1 (talker alias, 7-bit round trip): parsing the \<open>Bytes()\<close> of a 7-bit header
  should give back the 7 characters of the payload. On the code, \<open>Bytes()\<close> does not
  return for the payload \<open>"GO DMR\0"\<close>: it panics with an index out of range, so there is
  nothing to parse.
\<close>

theorem talker_alias_Bytes_7bit_panics:
  "Bytes \<lparr>DataFormat = Format7Bit, Length = 7,
          Data = [0x47, 0x4F, 0x20, 0x44, 0x4D, 0x52, 0x00]\<rparr> = Inl IndexOutOfRange"
  by (simp add: Bytes_def upto.simps movebit_negative_dst)

text \<open>
  Claim C2 (7-bit header parse, bit mapping): bit \<open>6 - i mod 7\<close> of output byte
  \<open>(i - 7) / 7\<close> should equal bit \<open>7 - i mod 8\<close> of input byte \<open>i / 8\<close>. On the code, a zero
  bit clears the whole output byte: for the input \<open>01 00 00 00 00 00 00\<close> the bit at
  \<open>i = 7\<close> is set in the input (bit 0 of byte 0), and bit 6 of output byte 0 is not, since
  the zero bits that follow wipe it.
\<close>

theorem talker_alias_parse_7bit_clears_byte:
  "ParseTalkerAliasHeaderPDU [0x01, 0x00, 0x00, 0x00, 0x00, 0x00, 0x00]
     = Inr \<lparr>DataFormat = Format7Bit, Length = 0, Data = [0, 0, 0, 0, 0, 0, 0]\<rparr>"
  by code_simp

section \<open>DMR frame codec\<close>

lemma length_copy_field: "length (copy_field n src) = n"
  by (simp add: copy_field_def)

lemma copy_field_exact: "length src = n \<Longrightarrow> copy_field n src = src"
  by (simp add: copy_field_def)

lemma buildData_length: "length (buildData d p r) = 55"
  by (simp add: buildData_def DMRData_def bytes_of_def length_copy_field)

lemma buildData_head:
  "buildData d p r ! 4 = Sequence p"
  "buildData d p r ! 5 = byte_at 16 (SrcID p)"
  "buildData d p r ! 6 = byte_at 8 (SrcID p)"
  "buildData d p r ! 7 = byte_at 0 (SrcID p)"
  "buildData d p r ! 8 = byte_at 16 (DstID p)"
  "buildData d p r ! 9 = byte_at 8 (DstID p)"
  "buildData d p r ! 10 = byte_at 0 (DstID p)"
  "buildData d p r ! 11 = byte_at 24 r"
  "buildData d p r ! 12 = byte_at 16 r"
  "buildData d p r ! 13 = byte_at 8 r"
  "buildData d p r ! 14 = byte_at 0 r"
  "buildData d p r ! 15 = packed_byte d p"
  "buildData d p r ! 16 = byte_at 24 (StreamID p)"
  "buildData d p r ! 17 = byte_at 16 (StreamID p)"
  "buildData d p r ! 18 = byte_at 8 (StreamID p)"
  "buildData d p r ! 19 = byte_at 0 (StreamID p)"
  by (simp_all add: buildData_def DMRData_def bytes_of_def)

lemma buildData_tail:
  "buildData d p r ! 53 = BER p"
  "buildData d p r ! 54 = RSSI p"
  by (simp_all add: buildData_def DMRData_def bytes_of_def nth_append length_copy_field)

lemma buildData_payload:
  "take 33 (drop 20 (buildData d p r)) = copy_field 33 (Data_p p)"
  by (simp add: buildData_def DMRData_def bytes_of_def length_copy_field)

lemmas VoiceBurst_defs =
  VoiceBurstB_def VoiceBurstC_def VoiceBurstD_def VoiceBurstE_def VoiceBurstF_def

text \<open>What the parser reads back from the packed byte 15.\<close>

lemma packed_byte_fields:
  assumes ts: "Timeslot p \<le> 1" and ct: "CallType p \<le> 1"
    and dt: "DataType p \<in> {VoiceBurstA d, VoiceBurstB d, VoiceBurstC d, VoiceBurstD d,
                            VoiceBurstE d, VoiceBurstF d} \<or> DataType p < 16"
  shows "drop_bit 7 (packed_byte d p) AND 0x01 = Timeslot p
       \<and> drop_bit 6 (packed_byte d p) AND 0x01 = CallType p
       \<and> (drop_bit 4 (packed_byte d p) AND 0x03 = 0x00
            \<or> drop_bit 4 (packed_byte d p) AND 0x03 = 0x01
            \<or> drop_bit 4 (packed_byte d p) AND 0x03 = 0x02)
       \<and> (if drop_bit 4 (packed_byte d p) AND 0x03 = 0x02 then packed_byte d p AND 0x0f
           else VoiceBurstA d + (packed_byte d p AND 0x0f)) = DataType p"
proof -
  from ts have ts': "Timeslot p = 0 \<or> Timeslot p = 1" by (rule byte_le_1)
  from ct have ct': "CallType p = 0 \<or> CallType p = 1" by (rule byte_le_1)
  let ?voice = "{VoiceBurstB d, VoiceBurstC d, VoiceBurstD d, VoiceBurstE d, VoiceBurstF d}"
  consider (voice) "DataType p \<in> ?voice"
    | (sync) "DataType p \<notin> ?voice" "DataType p = VoiceBurstA d"
    | (data) "DataType p \<notin> ?voice" "DataType p \<noteq> VoiceBurstA d" "DataType p < 16"
    using dt by blast
  then show ?thesis
  proof cases
    case voice
    then show ?thesis using ts' ct'
      by (auto simp add: packed_byte_def VoiceBurst_defs)
  next
    case sync
    then show ?thesis using ts' ct'
      by (auto simp add: packed_byte_def)
  next
    case data
    from byte_lt_16 [OF data(3)] data(1,2) show ?thesis using ts' ct'
      by (auto simp add: packed_byte_def)
  qed
qed

text \<open>
  Claim C4 (DMR frame round trip): for a packet whose source and destination ids are below
  \<open>2^24\<close>, whose timeslot and call type are one bit, whose payload has 33 bytes and whose
  data type is a voice burst A to F or a value below 16, and for every repeater id,
  \<open>parseData (buildData p rid)\<close> succeeds and returns the packet with \<open>RepeaterID\<close> set to
  \<open>rid\<close>, every other field as it was.
\<close>

theorem dmr_frame_round_trip:
  assumes "SrcID p < 2 ^ 24" and "DstID p < 2 ^ 24"
    and "Timeslot p \<le> 1" and "CallType p \<le> 1"
    and "length (Data_p p) = 33"
    and "DataType p \<in> {VoiceBurstA d, VoiceBurstB d, VoiceBurstC d, VoiceBurstD d,
                         VoiceBurstE d, VoiceBurstF d} \<or> DataType p < 16"
  shows "parseData d (buildData d p rid) = Inr (p\<lparr>RepeaterID := rid\<rparr>)"
proof -
  note pb = packed_byte_fields [OF assms(3,4,6)]
  have fields:
    "parseData d (buildData d p rid) =
       Inr \<lparr>Sequence = Sequence p, SrcID = SrcID p, DstID = DstID p, RepeaterID = rid,
            Timeslot = Timeslot p, CallType = CallType p, StreamID = StreamID p,
            DataType = DataType p, BER = BER p, RSSI = RSSI p, Data_p = Data_p p\<rparr>"
    using pb
    by (auto simp add: parseData_def buildData_length buildData_head buildData_tail
        buildData_payload Let_def u32_bytes u24_bytes [OF assms(1)] u24_bytes [OF assms(2)]
        SetData_def copy_field_exact length_copy_field assms(5))
  show ?thesis unfolding fields by (cases p) simp
qed

theorem dmr_frame_round_trip_witness:
  "SrcID example_packet < 2 ^ 24 \<and> DstID example_packet < 2 ^ 24
   \<and> Timeslot example_packet \<le> 1 \<and> CallType example_packet \<le> 1
   \<and> length (Data_p example_packet) = 33
   \<and> DataType example_packet = VoiceBurstC example_dmr
   \<and> parseData example_dmr (buildData example_dmr example_packet 0x00312345)
       = Inr (example_packet\<lparr>RepeaterID := 0x00312345\<rparr>)"
proof -
  have h: "SrcID example_packet < 2 ^ 24" "DstID example_packet < 2 ^ 24"
    "Timeslot example_packet \<le> 1" "CallType example_packet \<le> 1"
    "length (Data_p example_packet) = 33"
    "DataType example_packet = VoiceBurstC example_dmr"
    by (simp_all add: example_packet_def example_dmr_def VoiceBurstC_def)
  have "DataType example_packet \<in> {VoiceBurstA example_dmr, VoiceBurstB example_dmr,
          VoiceBurstC example_dmr, VoiceBurstD example_dmr, VoiceBurstE example_dmr,
          VoiceBurstF example_dmr} \<or> DataType example_packet < 16"
    using h(6) by simp
  from dmr_frame_round_trip [OF h(1-5) this, of "0x00312345"] h show ?thesis by simp
qed

section \<open>Slices, peers and the endpoint: basic facts\<close>

lemma take_of_take: "k \<le> n \<Longrightarrow> take n xs = ys \<Longrightarrow> take k xs = take k ys"
  by (auto simp: min_def)

lemma prefix4_of_6: "take 6 xs = v \<Longrightarrow> take 4 xs = take 4 v"
  by (rule take_of_take [of 4 6]) simp_all

lemma slice_to_within:
  "k \<le> length (elems d) \<Longrightarrow> slice_to d k = Inr (take k (elems d))"
  by (simp add: slice_to_def slice_cap_def)

lemma slice_range_within:
  "j \<le> k \<Longrightarrow> k \<le> length (elems d) \<Longrightarrow> slice_range d j k = Inr (sub (elems d) j k)"
  by (simp add: slice_range_def slice_cap_def sub_def)

lemma slice_from_within:
  "j \<le> length (elems d) \<Longrightarrow> slice_from d j = Inr (drop j (elems d))"
  by (simp add: slice_from_def slice_len_def)

lemma received_elems: "length bs \<le> 302 \<Longrightarrow> elems (received bs stale) = bs"
  by (simp add: received_def)

lemma bind_p_Inr [simp]: "bind_p (Inr x) f = f x"
  by (simp add: bind_p_def)

lemma bind_p_Inl [simp]: "bind_p (Inl x) f = Inl x"
  by (simp add: bind_p_def)

lemma heap_upd [simp]: "heap (upd h r f) r' = (if r' = r then f (heap h r) else heap h r')"
  by (simp add: upd_def)

lemma upd_fields [simp]: "Peer (upd h r f) = Peer h" "PeerID (upd h r f) = PeerID h"
  "Config (upd h r f) = Config h" "writes (upd h r f) = writes h" "id_h (upd h r f) = id_h h"
  "nextRef (upd h r f) = nextRef h" "pf (upd h r f) = pf h" "last_h (upd h r f) = last_h h"
  by (simp_all add: upd_def)

lemma set_Last_fields [simp]:
  "Status (set_Last f p) = Status p" "Incoming (set_Last f p) = Incoming p"
  "ID (set_Last f p) = ID p" "Addr (set_Last f p) = Addr p" "Token (set_Last f p) = Token p"
  "AuthKey (set_Last f p) = AuthKey p" "Last (set_Last f p) = f (Last p)"
  "UnlinkOnAuthFailure (set_Last f p) = UnlinkOnAuthFailure p" "TGID (set_Last f p) = TGID p"
  "Config_p (set_Last f p) = Config_p p" "PacketReceived_cb (set_Last f p) = PacketReceived_cb p"
  "id_p (set_Last f p) = id_p p"
  by (simp_all add: set_Last_def)

lemma getPeerByAddr_upd [simp]: "getPeerByAddr (upd h r f) a = getPeerByAddr h a"
  by (simp add: getPeerByAddr_def)

text \<open>The verbs differ.\<close>

lemma verb_prefixes:
  "take 4 MasterACK \<noteq> DMRData" "take 4 RepeaterACK \<noteq> DMRData" "take 4 MasterNAK \<noteq> DMRData"
  "MasterACK \<noteq> RepeaterACK" "MasterACK \<noteq> MasterNAK" "RepeaterACK \<noteq> MasterNAK"
  "RepeaterLogin \<noteq> DMRData" "RepeaterKey \<noteq> DMRData" "RepeaterLogin \<noteq> RepeaterKey"
  by (simp_all add: MasterACK_def RepeaterACK_def MasterNAK_def DMRData_def RepeaterLogin_def
      RepeaterKey_def bytes_of_def)

lemma New_fields [simp]:
  "Peer (New c) = []" "PeerID (New c) = []" "heap (New c) r = zero_Peer" "nextRef (New c) = 0"
  "Config (New c) = c" "writes (New c) = []" "pf (New c) = None"
  "id_h (New c) = packRepeaterID (ID_c c)"
  by (simp_all add: New_def)

lemma alloc_fields [simp]:
  "Peer (fst (alloc h p)) = Peer h" "PeerID (fst (alloc h p)) = PeerID h"
  "heap (fst (alloc h p)) r = (if r = nextRef h then p else heap h r)"
  "nextRef (fst (alloc h p)) = Suc (nextRef h)" "snd (alloc h p) = nextRef h"
  "Config (fst (alloc h p)) = Config h" "writes (fst (alloc h p)) = writes h"
  "pf (fst (alloc h p)) = pf h" "id_h (fst (alloc h p)) = id_h h"
  by (simp_all add: alloc_def)

lemma newPeer_fields [simp]:
  "Addr (newPeer i remote) = Some remote" "AuthKey (newPeer i remote) = bytes_of ''passw0rd''"
  "Incoming (newPeer i remote)" "Status (newPeer i remote) = AuthNone"
  "ID (newPeer i remote) = i" "Token (newPeer i remote) = []"
  by (simp_all add: newPeer_def zero_Peer_def)

text \<open>What \<open>WriteToPeer\<close> does for a peer that is not nil.\<close>

lemma WriteToPeer_Some:
  "WriteToPeer e h b (Some r) =
     (case Addr (heap h r) of
        None \<Rightarrow> Some WriteFailed
      | Some s \<Rightarrow> if WriteTo_fails e s then Some WriteFailed else None,
      stamp_sent e h r b)"
  by (simp add: WriteToPeer_def stamp_sent_def Let_def split: option.splits)

lemma stamp_sent_fields [simp]:
  "Peer (stamp_sent e h r b) = Peer h" "PeerID (stamp_sent e h r b) = PeerID h"
  "nextRef (stamp_sent e h r b) = nextRef h" "Config (stamp_sent e h r b) = Config h"
  "id_h (stamp_sent e h r b) = id_h h" "pf (stamp_sent e h r b) = pf h"
  "writes (stamp_sent e h r b) = writes h @ [(Addr (heap h r), b)]"
  "ID (heap (stamp_sent e h r b) r') = ID (heap h r')"
  "Addr (heap (stamp_sent e h r b) r') = Addr (heap h r')"
  "AuthKey (heap (stamp_sent e h r b) r') = AuthKey (heap h r')"
  "Incoming (heap (stamp_sent e h r b) r') = Incoming (heap h r')"
  "Status (heap (stamp_sent e h r b) r') = Status (heap h r')"
  "Token (heap (stamp_sent e h r b) r') = Token (heap h r')"
  by (simp_all add: stamp_sent_def)

lemma getPeerByAddr_stamp_sent [simp]:
  "getPeerByAddr (stamp_sent e h r b) a = getPeerByAddr h a"
  by (simp add: getPeerByAddr_def)

lemma WriteToPeer_Inr_fields:
  "Status (heap (snd (WriteToPeer e h b (Some r))) r') = Status (heap h r')"
  "Token (heap (snd (WriteToPeer e h b (Some r))) r') = Token (heap h r')"
  "writes (snd (WriteToPeer e h b (Some r))) = writes h @ [(Addr (heap h r), b)]"
  by (simp_all add: WriteToPeer_Some)

text \<open>\<open>handleAuth\<close> leaves the registry and the identity of the peers alone.\<close>

lemma handleAuth_frame:
  "Peer (snd (handleAuth e h r)) = Peer h"
  "PeerID (snd (handleAuth e h r)) = PeerID h"
  "nextRef (snd (handleAuth e h r)) = nextRef h"
  "Config (snd (handleAuth e h r)) = Config h"
  "id_h (snd (handleAuth e h r)) = id_h h"
  "pf (snd (handleAuth e h r)) = pf h"
  "ID (heap (snd (handleAuth e h r)) r') = ID (heap h r')"
  "Addr (heap (snd (handleAuth e h r)) r') = Addr (heap h r')"
  "AuthKey (heap (snd (handleAuth e h r)) r') = AuthKey (heap h r')"
  "Incoming (heap (snd (handleAuth e h r)) r') = Incoming (heap h r')"
  "Status (heap (snd (handleAuth e h r)) r') = Status (heap h r')"
  "Token (heap (snd (handleAuth e h r)) r') = Token (heap h r')"
  by (simp_all add: handleAuth_def WriteToPeer_Some stamp_sent_def Let_def split: AuthStatus.splits)

lemma handleAuth_Last:
  "PingSent (Last (heap (snd (handleAuth e h r)) r')) = PingSent (Last (heap h r'))"
  "PingReceived (Last (heap (snd (handleAuth e h r)) r')) = PingReceived (Last (heap h r'))"
  "PongReceived (Last (heap (snd (handleAuth e h r)) r')) = PongReceived (Last (heap h r'))"
  "TGSubscribed (Last (heap (snd (handleAuth e h r)) r')) = TGSubscribed (Last (heap h r'))"
  by (simp_all add: handleAuth_def WriteToPeer_Some stamp_sent_def Let_def split: AuthStatus.splits)

text \<open>\<open>Link\<close> of a peer with an address and a key.\<close>

lemma linked_fields [simp]:
  "Peer (linked h r) = AList.update (addr_String (Addr (heap h r))) r (Peer h)"
  "PeerID (linked h r) = AList.update (ID (heap h r)) r (PeerID h)"
  "nextRef (linked h r) = nextRef h" "Config (linked h r) = Config h"
  "id_h (linked h r) = id_h h" "pf (linked h r) = pf h" "writes (linked h r) = writes h"
  "ID (heap (linked h r) r') = ID (heap h r')"
  "Addr (heap (linked h r) r') = Addr (heap h r')"
  "AuthKey (heap (linked h r) r') = AuthKey (heap h r')"
  "Incoming (heap (linked h r) r') = Incoming (heap h r')"
  "Status (heap (linked h r) r') = Status (heap h r')"
  "Token (heap (linked h r) r') = Token (heap h r')"
  by (simp_all add: linked_def)

lemma linked_Last:
  "Last (heap (linked h r) r) = (Last (heap h r))\<lparr>PacketSent := 0, PacketReceived := 0,
                                                  PingSent := 0, PongReceived := 0\<rparr>"
  by (simp add: linked_def)

lemma Link_Some:
  assumes "Addr (heap h r) \<noteq> None" and "AuthKey (heap h r) \<noteq> []"
  shows "Link e h (Some r) =
           (if Incoming (heap h r) then (None, linked h r) else handleAuth e (linked h r) r)"
  using assms
  by (auto simp add: Link_def linked_def Let_def upd_def set_Last_def fun_eq_iff
       intro!: arg_cong2 [where f = "handleAuth e"])

lemma begun_fields [simp]:
  "Peer (begun e h r n) = Peer h" "PeerID (begun e h r n) = PeerID h"
  "nextRef (begun e h r n) = nextRef h" "Config (begun e h r n) = Config h"
  "id_h (begun e h r n) = id_h h" "pf (begun e h r n) = pf h"
  "writes (begun e h r n) = writes h"
  "ID (heap (begun e h r n) r') = ID (heap h r')"
  "Addr (heap (begun e h r n) r') = Addr (heap h r')"
  "AuthKey (heap (begun e h r n) r') = AuthKey (heap h r')"
  "Incoming (heap (begun e h r n) r') = Incoming (heap h r')"
  "Status (heap (begun e h r n) r') = (if r' = r then AuthBegin else Status (heap h r'))"
  "Token (heap (begun e h r n) r') =
     (if r' = r then UpdateToken e (AuthKey (heap h r)) n else Token (heap h r'))"
  by (simp_all add: begun_def)

lemma stale_peer_fields:
  "Addr stale_peer = Some ''192.0.2.7:62031''" "AuthKey stale_peer \<noteq> []" "Incoming stale_peer"
  "Last stale_peer = \<lparr>PacketSent = 1, PacketReceived = 2, PingSent = 3,
                                   PingReceived = 4, PongReceived = 5, AuthSent = 6,
                                   TGSubscribed = 7\<rparr>"
  by (simp_all add: stale_peer_def zero_Peer_def bytes_of_def)

lemma master_peer_fields:
  "Addr master_peer = Some ''198.51.100.1:62030''" "AuthKey master_peer \<noteq> []"
  "\<not> Incoming master_peer" "Status master_peer = AuthNone" "Token master_peer = []"
  "ID master_peer = 0x00002040"
  by (simp_all add: master_peer_def zero_Peer_def bytes_of_def)

lemma example_login_facts:
  "8 \<le> slice_len example_login" "take 4 (elems example_login) = RepeaterLogin"
proof -
  have e: "elems example_login = RepeaterLogin @ [0x00, 0x31, 0x23, 0x45]"
    unfolding example_login_def by (rule received_elems) (simp add: RepeaterLogin_def bytes_of_def)
  show "8 \<le> slice_len example_login" "take 4 (elems example_login) = RepeaterLogin"
    using e by (simp_all add: slice_len_def RepeaterLogin_def bytes_of_def)
qed

lemma length_example_token: "length example_token = 32"
  by (simp add: example_token_def bytes_of_def)

lemma example_token_eq:
  "UpdateToken example_env (bytes_of ''secret'') [0xDE, 0xAD, 0xBE, 0xEF] = example_token"
  by (simp add: example_env_def example_token_def bytes_of_def)

lemma good_key_facts:
  "8 \<le> slice_len good_key" "take 4 (elems good_key) = RepeaterKey"
  "slice_len good_key = 40" "drop 8 (elems good_key) = example_token"
proof -
  have e: "elems good_key = RepeaterKey @ [0x00, 0x31, 0x23, 0x45] @ example_token"
    unfolding good_key_def
    by (rule received_elems) (simp add: RepeaterKey_def bytes_of_def length_example_token)
  show "8 \<le> slice_len good_key" "take 4 (elems good_key) = RepeaterKey"
    "slice_len good_key = 40" "drop 8 (elems good_key) = example_token"
    using e by (simp_all add: slice_len_def RepeaterKey_def bytes_of_def length_example_token)
qed

lemma bad_key_facts:
  "8 \<le> slice_len bad_key" "take 4 (elems bad_key) = RepeaterKey"
  "slice_len bad_key = 40" "drop 8 (elems bad_key) \<noteq> example_token"
proof -
  have e: "elems bad_key = RepeaterKey @ [0x00, 0x31, 0x23, 0x45] @ example_token [0 := 0xDF]"
    unfolding bad_key_def
    by (rule received_elems) (simp add: RepeaterKey_def bytes_of_def length_example_token)
  have n: "example_token [0 := 0xDF] \<noteq> example_token"
    by (simp add: example_token_def)
  show "8 \<le> slice_len bad_key" "take 4 (elems bad_key) = RepeaterKey"
    "slice_len bad_key = 40" "drop 8 (elems bad_key) \<noteq> example_token"
    using e n by (simp_all add: slice_len_def RepeaterKey_def bytes_of_def length_example_token)
qed

lemma example_nonce_ack_facts:
  "slice_len example_nonce_ack = 10" "take 6 (elems example_nonce_ack) = RepeaterACK"
proof -
  have e: "elems example_nonce_ack = RepeaterACK @ [0xDE, 0xAD, 0xBE, 0xEF]"
    unfolding example_nonce_ack_def
    by (rule received_elems) (simp add: RepeaterACK_def bytes_of_def)
  show "slice_len example_nonce_ack = 10" "take 6 (elems example_nonce_ack) = RepeaterACK"
    using e by (simp_all add: slice_len_def RepeaterACK_def bytes_of_def)
qed

lemma example_ack_facts:
  "10 \<le> slice_len example_ack" "take 6 (elems example_ack) = MasterACK"
proof -
  have e: "elems example_ack = MasterACK @ [0x00, 0x31, 0x20, 0x00]"
    unfolding example_ack_def
    by (rule received_elems) (simp add: MasterACK_def bytes_of_def)
  show "10 \<le> slice_len example_ack" "take 6 (elems example_ack) = MasterACK"
    using e by (simp_all add: slice_len_def MasterACK_def bytes_of_def)
qed

section \<open>Link and the liveness timestamps\<close>

text \<open>What the start of the authentication stamps.\<close>

lemma handleAuth_stamps:
  "PacketReceived (Last (heap (snd (handleAuth e h r)) r)) =
     (if Incoming (heap h r) then PacketReceived (Last (heap h r)) else time_Now e)"
  "PacketSent (Last (heap (snd (handleAuth e h r)) r)) =
     (if \<not> Incoming (heap h r) \<and> (Status (heap h r) = AuthNone \<or> Status (heap h r) = AuthBegin)
      then time_Now e else PacketSent (Last (heap h r)))"
  "AuthSent (Last (heap (snd (handleAuth e h r)) r)) =
     (if \<not> Incoming (heap h r) \<and> Status (heap h r) = AuthNone
      then time_Now e else AuthSent (Last (heap h r)))"
  by (simp_all add: handleAuth_def WriteToPeer_Some stamp_sent_def Let_def split: AuthStatus.splits)

lemma done_peer_fields:
  "Addr done_peer = Some ''192.0.2.7:62031''" "AuthKey done_peer \<noteq> []" "\<not> Incoming done_peer"
  "Status done_peer = AuthDone"
  "Last done_peer = \<lparr>PacketSent = 1, PacketReceived = 2, PingSent = 3,
                                   PingReceived = 4, PongReceived = 5, AuthSent = 6,
                                   TGSubscribed = 7\<rparr>"
  by (simp_all add: done_peer_def stale_peer_fields)

text \<open>
  Claim C8 (Link resets all liveness timestamps), as amended: for a peer with an address
  and a non-empty auth key, \<open>Link\<close> resets \<open>PacketSent\<close>, \<open>PacketReceived\<close>, \<open>PingSent\<close> and
  \<open>PongReceived\<close> to the zero value and registers the peer in both indexes;
  \<open>PingReceived\<close>, \<open>AuthSent\<close> and \<open>TGSubscribed\<close> are not reset. For an incoming peer
  \<open>Link\<close> returns that endpoint and succeeds; for an outgoing peer it returns what the start
  of the authentication makes of that endpoint. When \<open>Link\<close> has returned, \<open>PingSent\<close> and
  \<open>PongReceived\<close> are zero and \<open>PingReceived\<close> and \<open>TGSubscribed\<close> as they were; for an
  incoming peer \<open>PacketSent\<close> and \<open>PacketReceived\<close> are zero and \<open>AuthSent\<close> is as it was; for
  an outgoing peer \<open>PacketReceived\<close> is the current time, \<open>PacketSent\<close> is the current time
  in the states None and Begin and zero in the other states, and \<open>AuthSent\<close> is the current
  time in state None and as it was in the other states.
\<close>

theorem Link_resets_four_timestamps:
  assumes "Addr (heap h r) \<noteq> None" and "AuthKey (heap h r) \<noteq> []"
  shows "(\<exists>h1. Link e h (Some r) = (if Incoming (heap h r) then (None, h1) else handleAuth e h1 r)
            \<and> PacketSent (Last (heap h1 r)) = 0
            \<and> PacketReceived (Last (heap h1 r)) = 0
            \<and> PingSent (Last (heap h1 r)) = 0
            \<and> PongReceived (Last (heap h1 r)) = 0
            \<and> PingReceived (Last (heap h1 r)) = PingReceived (Last (heap h r))
            \<and> AuthSent (Last (heap h1 r)) = AuthSent (Last (heap h r))
            \<and> TGSubscribed (Last (heap h1 r)) = TGSubscribed (Last (heap h r))
            \<and> Incoming (heap h1 r) = Incoming (heap h r)
            \<and> Status (heap h1 r) = Status (heap h r)
            \<and> map_of (Peer h1) (addr_String (Addr (heap h r))) = Some r
            \<and> map_of (PeerID h1) (ID (heap h r)) = Some r)
       \<and> PingSent (Last (heap (snd (Link e h (Some r))) r)) = 0
       \<and> PongReceived (Last (heap (snd (Link e h (Some r))) r)) = 0
       \<and> PingReceived (Last (heap (snd (Link e h (Some r))) r)) = PingReceived (Last (heap h r))
       \<and> TGSubscribed (Last (heap (snd (Link e h (Some r))) r)) = TGSubscribed (Last (heap h r))
       \<and> (Incoming (heap h r) \<longrightarrow>
            fst (Link e h (Some r)) = None
          \<and> PacketSent (Last (heap (snd (Link e h (Some r))) r)) = 0
          \<and> PacketReceived (Last (heap (snd (Link e h (Some r))) r)) = 0
          \<and> AuthSent (Last (heap (snd (Link e h (Some r))) r)) = AuthSent (Last (heap h r)))
       \<and> (\<not> Incoming (heap h r) \<longrightarrow>
            PacketReceived (Last (heap (snd (Link e h (Some r))) r)) = time_Now e
          \<and> PacketSent (Last (heap (snd (Link e h (Some r))) r)) =
              (if Status (heap h r) = AuthNone \<or> Status (heap h r) = AuthBegin
               then time_Now e else 0)
          \<and> AuthSent (Last (heap (snd (Link e h (Some r))) r)) =
              (if Status (heap h r) = AuthNone then time_Now e else AuthSent (Last (heap h r))))"
proof (rule conjI)
  show "\<exists>h1. Link e h (Some r) = (if Incoming (heap h r) then (None, h1) else handleAuth e h1 r)
            \<and> PacketSent (Last (heap h1 r)) = 0
            \<and> PacketReceived (Last (heap h1 r)) = 0
            \<and> PingSent (Last (heap h1 r)) = 0
            \<and> PongReceived (Last (heap h1 r)) = 0
            \<and> PingReceived (Last (heap h1 r)) = PingReceived (Last (heap h r))
            \<and> AuthSent (Last (heap h1 r)) = AuthSent (Last (heap h r))
            \<and> TGSubscribed (Last (heap h1 r)) = TGSubscribed (Last (heap h r))
            \<and> Incoming (heap h1 r) = Incoming (heap h r)
            \<and> Status (heap h1 r) = Status (heap h r)
            \<and> map_of (Peer h1) (addr_String (Addr (heap h r))) = Some r
            \<and> map_of (PeerID h1) (ID (heap h r)) = Some r"
    by (rule exI [of _ "linked h r"])
       (simp add: Link_Some [OF assms] linked_Last update_conv')
  show "PingSent (Last (heap (snd (Link e h (Some r))) r)) = 0
       \<and> PongReceived (Last (heap (snd (Link e h (Some r))) r)) = 0
       \<and> PingReceived (Last (heap (snd (Link e h (Some r))) r)) = PingReceived (Last (heap h r))
       \<and> TGSubscribed (Last (heap (snd (Link e h (Some r))) r)) = TGSubscribed (Last (heap h r))
       \<and> (Incoming (heap h r) \<longrightarrow>
            fst (Link e h (Some r)) = None
          \<and> PacketSent (Last (heap (snd (Link e h (Some r))) r)) = 0
          \<and> PacketReceived (Last (heap (snd (Link e h (Some r))) r)) = 0
          \<and> AuthSent (Last (heap (snd (Link e h (Some r))) r)) = AuthSent (Last (heap h r)))
       \<and> (\<not> Incoming (heap h r) \<longrightarrow>
            PacketReceived (Last (heap (snd (Link e h (Some r))) r)) = time_Now e
          \<and> PacketSent (Last (heap (snd (Link e h (Some r))) r)) =
              (if Status (heap h r) = AuthNone \<or> Status (heap h r) = AuthBegin
               then time_Now e else 0)
          \<and> AuthSent (Last (heap (snd (Link e h (Some r))) r)) =
              (if Status (heap h r) = AuthNone then time_Now e else AuthSent (Last (heap h r))))"
    by (simp add: Link_Some [OF assms] handleAuth_Last handleAuth_stamps linked_Last)
qed

theorem Link_resets_four_timestamps_witness:
  "Addr (heap (fst (alloc (New example_config) stale_peer)) 0) \<noteq> None
   \<and> AuthKey (heap (fst (alloc (New example_config) stale_peer)) 0) \<noteq> []
   \<and> Incoming (heap (fst (alloc (New example_config) stale_peer)) 0)
   \<and> PingSent (Last (heap (snd (Link example_env (fst (alloc (New example_config) stale_peer)) (Some 0))) 0)) = 0
   \<and> PongReceived (Last (heap (snd (Link example_env (fst (alloc (New example_config) stale_peer)) (Some 0))) 0)) = 0
   \<and> PacketSent (Last (heap (snd (Link example_env (fst (alloc (New example_config) stale_peer)) (Some 0))) 0)) = 0
   \<and> PacketReceived (Last (heap (snd (Link example_env (fst (alloc (New example_config) stale_peer)) (Some 0))) 0)) = 0
   \<and> Addr (heap (fst (alloc (New example_config) done_peer)) 0) \<noteq> None
   \<and> AuthKey (heap (fst (alloc (New example_config) done_peer)) 0) \<noteq> []
   \<and> \<not> Incoming (heap (fst (alloc (New example_config) done_peer)) 0)
   \<and> PingSent (Last (heap (snd (Link example_env (fst (alloc (New example_config) done_peer)) (Some 0))) 0)) = 0
   \<and> PongReceived (Last (heap (snd (Link example_env (fst (alloc (New example_config) done_peer)) (Some 0))) 0)) = 0
   \<and> PacketSent (Last (heap (snd (Link example_env (fst (alloc (New example_config) done_peer)) (Some 0))) 0)) = 0
   \<and> PacketReceived (Last (heap (snd (Link example_env (fst (alloc (New example_config) done_peer)) (Some 0))) 0)) = 1000
   \<and> AuthSent (Last (heap (snd (Link example_env (fst (alloc (New example_config) done_peer)) (Some 0))) 0)) = 6"
proof -
  let ?h = "fst (alloc (New example_config) stale_peer)"
  let ?g = "fst (alloc (New example_config) done_peer)"
  have a: "Addr (heap ?h 0) \<noteq> None" and k: "AuthKey (heap ?h 0) \<noteq> []"
    and i: "Incoming (heap ?h 0)"
    by (simp_all add: stale_peer_fields)
  have b: "Addr (heap ?g 0) \<noteq> None" and l: "AuthKey (heap ?g 0) \<noteq> []"
    and o: "\<not> Incoming (heap ?g 0)" and s: "Status (heap ?g 0) = AuthDone"
    and t: "AuthSent (Last (heap ?g 0)) = 6" and n: "time_Now example_env = 1000"
    by (simp_all add: done_peer_fields example_env_def)
  from Link_resets_four_timestamps [OF a k, of example_env, THEN conjunct2]
    Link_resets_four_timestamps [OF b l, of example_env, THEN conjunct2]
    a k i b l o s t n
  show ?thesis by simp
qed

text \<open>
  The claim as stated fails: a peer linked with \<open>PingReceived = 4\<close>, \<open>AuthSent = 6\<close> and
  \<open>TGSubscribed = 7\<close> keeps the three values.
\<close>

theorem Link_keeps_PingReceived_AuthSent_TGSubscribed:
  "fst (Link example_env (fst (alloc (New example_config) stale_peer)) (Some 0)) = None
   \<and> PingReceived (Last (heap (snd (Link example_env (fst (alloc (New example_config) stale_peer)) (Some 0))) 0)) = 4
   \<and> AuthSent (Last (heap (snd (Link example_env (fst (alloc (New example_config) stale_peer)) (Some 0))) 0)) = 6
   \<and> TGSubscribed (Last (heap (snd (Link example_env (fst (alloc (New example_config) stale_peer)) (Some 0))) 0)) = 7"
  by (simp add: Link_Some stale_peer_fields linked_Last)

section \<open>Outgoing role: the answer to the login\<close>

lemma outgoing_None_ignores_MSTACK:
  assumes "getPeerByAddr h remote = Some peer"
    and "\<not> Incoming (heap h peer)" and "Status (heap h peer) = AuthNone"
    and "slice_len data = 10" and "take 6 (elems data) = MasterACK"
  shows "handle e h remote data
           = Inr (None, upd h peer (set_Last (\<lambda>l. l\<lparr>PacketReceived := time_Now e\<rparr>)))"
proof -
  have l: "length (elems data) = 10" using assms(4) by (simp add: slice_len_def)
  have d4: "take 4 (elems data) \<noteq> DMRData"
    using prefix4_of_6 [OF assms(5)] by (simp add: verb_prefixes)
  show ?thesis
    using assms(1-3,5) d4
    by (simp add: handle_def handle_peer_def auth_outgoing_def slice_len_def l
        slice_to_within slice_range_within verb_prefixes)
qed

lemma outgoing_None_accepts_RPTACK:
  assumes "getPeerByAddr h remote = Some peer"
    and "\<not> Incoming (heap h peer)" and "Status (heap h peer) = AuthNone"
    and "slice_len data = 10" and "take 6 (elems data) = RepeaterACK"
  shows "\<exists>err h'. handle e h remote data = Inr (err, h')
           \<and> Status (heap h' peer) = AuthBegin
           \<and> Token (heap h' peer) = UpdateToken e (AuthKey (heap h peer)) (drop 6 (elems data))
           \<and> writes h' = writes h @ [(Addr (heap h peer), RepeaterKey @ id_h h @ Token (heap h' peer))]"
proof -
  have l: "length (elems data) = 10" using assms(4) by (simp add: slice_len_def)
  have d4: "take 4 (elems data) \<noteq> DMRData"
    using prefix4_of_6 [OF assms(5)] by (simp add: verb_prefixes)
  show ?thesis
    using assms(1-3,5) d4
    by (simp add: handle_def handle_peer_def auth_outgoing_def slice_len_def l
        slice_to_within slice_range_within verb_prefixes handleAuth_def WriteToPeer_Some
        stamp_sent_def sub_def Let_def)
qed

lemma outgoing_None_accepts_RPTACK_frame:
  assumes "getPeerByAddr h remote = Some peer"
    and "\<not> Incoming (heap h peer)" and "Status (heap h peer) = AuthNone"
    and "slice_len data = 10" and "take 6 (elems data) = RepeaterACK"
  shows "\<exists>err h'. handle e h remote data = Inr (err, h')
           \<and> Status (heap h' peer) = AuthBegin
           \<and> getPeerByAddr h' remote = Some peer \<and> \<not> Incoming (heap h' peer)
           \<and> Config h' = Config h"
proof -
  have l: "length (elems data) = 10" using assms(4) by (simp add: slice_len_def)
  have d4: "take 4 (elems data) \<noteq> DMRData"
    using prefix4_of_6 [OF assms(5)] by (simp add: verb_prefixes)
  show ?thesis
    using assms(1-3,5) d4
    by (simp add: handle_def handle_peer_def auth_outgoing_def slice_len_def l
        slice_to_within slice_range_within verb_prefixes handleAuth_def WriteToPeer_Some
        sub_def Let_def getPeerByAddr_def)
qed

lemma outgoing_endpoint_eq:
  "outgoing_endpoint =
     snd (handleAuth example_env (linked (fst (alloc (New example_config) master_peer)) 0) 0)"
  by (simp add: outgoing_endpoint_def alloc_def Link_Some master_peer_fields split_def Let_def)

lemma outgoing_endpoint_facts:
  "getPeerByAddr outgoing_endpoint ''198.51.100.1:62030'' = Some 0"
  "\<not> Incoming (heap outgoing_endpoint 0)"
  "Status (heap outgoing_endpoint 0) = AuthNone"
  "Token (heap outgoing_endpoint 0) = []"
  by (simp_all add: outgoing_endpoint_eq handleAuth_frame getPeerByAddr_def master_peer_fields
      addr_String_def)

lemma outgoing_endpoint_Config: "Config outgoing_endpoint = example_config"
  by (simp add: outgoing_endpoint_eq handleAuth_frame)

text \<open>
  Claim C3 (outgoing role accepts the nonce under both verbs): an outgoing peer in state
  None that receives \<open>MSTACK\<close> or \<open>RPTACK\<close> followed by a nonce should store the token,
  send \<open>RPTK\<close> with its id and the token, and move to Begin. On the code this holds for
  \<open>RPTACK\<close> (lemma \<open>outgoing_None_accepts_RPTACK\<close>) and not for \<open>MSTACK\<close>: the datagram
  \<open>MSTACK DE AD BE EF\<close> from the master that was just linked is ignored, the peer stays in
  None with an empty token and nothing is written.
\<close>

theorem outgoing_None_drops_MSTACK_nonce:
  "(case handle example_env outgoing_endpoint ''198.51.100.1:62030''
           (received (MasterACK @ [0xDE, 0xAD, 0xBE, 0xEF]) []) of
      Inl _ \<Rightarrow> False
    | Inr (err, h') \<Rightarrow>
        err = None \<and> Status (heap h' 0) = AuthNone \<and> Token (heap h' 0) = []
        \<and> writes h' = writes outgoing_endpoint)"
proof -
  let ?d = "received (MasterACK @ [0xDE, 0xAD, 0xBE, 0xEF]) []"
  have e: "elems ?d = MasterACK @ [0xDE, 0xAD, 0xBE, 0xEF]"
    by (rule received_elems) (simp add: MasterACK_def bytes_of_def)
  have l: "slice_len ?d = 10" using e by (simp add: slice_len_def MasterACK_def bytes_of_def)
  have t: "take 6 (elems ?d) = MasterACK" using e by (simp add: MasterACK_def bytes_of_def)
  show ?thesis
    by (simp add: outgoing_None_ignores_MSTACK [OF outgoing_endpoint_facts(1-3) l t]
        outgoing_endpoint_facts)
qed

section \<open>Short datagrams\<close>

text \<open>A short datagram of a known peer is dropped, and so is one from an unknown address
  that does not start with \<open>RPTL\<close>; one that does panics.\<close>

lemma short_known_dropped:
  assumes "getPeerByAddr h remote = Some peer" and "slice_len data < 8"
  shows "handle e h remote data = Inr (None, h)"
  using assms by (simp add: handle_def handle_peer_def)

lemma unknown_other_dropped:
  assumes "getPeerByAddr h remote = None" and "slice_to data 4 = Inr d4" and "d4 \<noteq> RepeaterLogin"
  shows "handle e h remote data = Inr (None, h)"
  using assms by (simp add: handle_def)

lemma short_unknown_login_panics:
  assumes "getPeerByAddr h remote = None" and "slice_len data < 8"
    and "slice_to data 4 = Inr RepeaterLogin"
  shows "\<exists>p. handle e h remote data = Inl p"
  using assms by (auto simp add: handle_def slice_from_def unpackRepeaterID_def slice_len_def)

text \<open>
  Claim C6 (short datagrams are dropped): a datagram of fewer than 8 bytes should be dropped
  without a crash, from a known or an unknown address. On the code the 4 bytes \<open>RPTL\<close>
  from an unknown address panic: the id is unpacked from \<open>data[4:]\<close>, which is empty,
  before the length is looked at.
\<close>

theorem short_login_panics:
  "handle example_env (New example_config) ''192.0.2.7:62031'' (received (bytes_of ''RPTL'') [])
     = Inl IndexOutOfRange"
  by (simp add: handle_def getPeerByAddr_def slice_to_def slice_cap_def received_def
      bytes_of_def RepeaterLogin_def slice_from_def slice_len_def unpackRepeaterID_def)

section \<open>Incoming role: login and key exchange\<close>

lemma handle_peer_incoming_login:
  assumes "Incoming (heap h peer)" and "Status (heap h peer) = AuthNone"
    and "8 \<le> slice_len data" and "take 4 (elems data) = RepeaterLogin"
    and "rand_Read e = Some rnd"
  shows "handle_peer e h data (Some peer)
           = Inr (WriteToPeer e (begun e h peer (copy_field 4 rnd))
                    (RepeaterACK @ copy_field 4 rnd) (Some peer))"
proof -
  have l: "8 \<le> length (elems data)" using assms(3) by (simp add: slice_len_def)
  then have l4: "4 \<le> length (elems data)" by simp
  show ?thesis
    using assms l
    by (simp add: handle_peer_def auth_incoming_def slice_to_within [OF l4]
        slice_range_within Let_def begun_def verb_prefixes)
qed

lemma handle_unknown_login:
  assumes "getPeerByAddr h remote = None"
    and "8 \<le> slice_len data" and "take 4 (elems data) = RepeaterLogin"
  shows "handle e h remote data
           = handle_peer e (linked (fst (alloc h (newPeer (login_id data) remote))) (nextRef h))
               data (Some (nextRef h))"
proof -
  have l: "8 \<le> length (elems data)" using assms(2) by (simp add: slice_len_def)
  then have l4: "4 \<le> length (elems data)" by simp
  have u: "unpackRepeaterID (drop 4 (elems data)) = Inr (login_id data)"
    using l by (simp add: login_id_def unpackRepeaterID_def)
  have k: "bytes_of ''passw0rd'' \<noteq> []" by (simp add: bytes_of_def)
  show ?thesis
    using assms(1,3)
    by (simp add: handle_def slice_to_within [OF l4] slice_from_within [OF l4] u
        split_def Let_def Link_Some k getPeerByAddr_def update_conv' addr_String_def)
qed

text \<open>The key exchange of an incoming peer in state Begin.\<close>

lemma handle_incoming_key:
  assumes "getPeerByAddr h remote = Some peer"
    and "Incoming (heap h peer)" and "Status (heap h peer) = AuthBegin"
    and "8 \<le> slice_len data" and "take 4 (elems data) = RepeaterKey"
  shows "\<exists>err h'. handle e h remote data = Inr (err, h')
           \<and> (if slice_len data = 40 \<and> drop 8 (elems data) = Token (heap h peer)
               then Status (heap h' peer) = AuthDone
                    \<and> writes h' = writes h @ [(Addr (heap h peer), RepeaterACK @ id_h h)]
               else Status (heap h' peer) = AuthNone
                    \<and> writes h' = writes h @ [(Addr (heap h peer), MasterNAK @ id_h h)])"
proof -
  have l: "8 \<le> length (elems data)" using assms(4) by (simp add: slice_len_def)
  then have l4: "4 \<le> length (elems data)" by simp
  show ?thesis
    using assms(1-3,5) l
    by (simp add: handle_def handle_peer_def auth_incoming_def slice_to_within [OF l4]
        slice_range_within slice_from_within Let_def verb_prefixes WriteToPeer_Some
        slice_len_def)
qed

lemma incoming_endpoint_eq:
  "incoming_endpoint = linked (fst (alloc (New example_config) stale_peer)) 0"
  by (simp add: incoming_endpoint_def Link_Some stale_peer_fields)

lemma incoming_endpoint_facts:
  "getPeerByAddr incoming_endpoint ''192.0.2.7:62031'' = Some 0"
  "Incoming (heap incoming_endpoint 0)"
  "Status (heap incoming_endpoint 0) = AuthNone"
  "AuthKey (heap incoming_endpoint 0) = bytes_of ''secret''"
  by (simp_all add: incoming_endpoint_eq getPeerByAddr_def stale_peer_fields addr_String_def
      stale_peer_def zero_Peer_def)

text \<open>
  Claim C5 (incoming auth progression), as amended: for an incoming peer in state None, a
  login \<open>RPTL\<close> with an id is answered with \<open>RPTACK\<close> and the nonce and leaves the peer
  in Begin with the token of that nonce; then every \<open>RPTK\<close> datagram of at least 8 bytes
  is answered: with \<open>RPTACK\<close> and the master id, ending in Done, when it has 40 bytes and
  its bytes from 8 on are the stored token; with \<open>MSTNAK\<close> and the master id, ending in
  None, otherwise. A datagram shorter than 8 bytes is dropped: no answer, the peer stays in
  Begin. The answers go to the address of the peer.
\<close>

theorem incoming_auth_progression:
  assumes "getPeerByAddr h remote = Some peer"
    and "Incoming (heap h peer)" and "Status (heap h peer) = AuthNone"
    and "8 \<le> slice_len login" and "take 4 (elems login) = RepeaterLogin"
    and "rand_Read e = Some nonce" and "length nonce = 4"
  shows "\<exists>err h1. handle e h remote login = Inr (err, h1)
           \<and> writes h1 = writes h @ [(Addr (heap h peer), RepeaterACK @ nonce)]
           \<and> Status (heap h1 peer) = AuthBegin
           \<and> Token (heap h1 peer) = UpdateToken e (AuthKey (heap h peer)) nonce
           \<and> (\<forall>e' key. 8 \<le> slice_len key \<and> take 4 (elems key) = RepeaterKey \<longrightarrow>
                (\<exists>err' h2. handle e' h1 remote key = Inr (err', h2)
                   \<and> (if slice_len key = 40 \<and> drop 8 (elems key) = Token (heap h1 peer)
                       then Status (heap h2 peer) = AuthDone
                            \<and> writes h2 = writes h1 @ [(Addr (heap h peer), RepeaterACK @ id_h h)]
                       else Status (heap h2 peer) = AuthNone
                            \<and> writes h2 = writes h1 @ [(Addr (heap h peer), MasterNAK @ id_h h)])))
           \<and> (\<forall>e' key. slice_len key < 8 \<longrightarrow> handle e' h1 remote key = Inr (None, h1))"
proof -
  let ?h1 = "stamp_sent e (begun e h peer nonce) peer (RepeaterACK @ nonce)"
  have c: "copy_field 4 nonce = nonce" using assms(7) by (rule copy_field_exact)
  have step1: "handle e h remote login
                 = Inr (case Addr (heap h peer) of None \<Rightarrow> Some WriteFailed
                         | Some s \<Rightarrow> if WriteTo_fails e s then Some WriteFailed else None, ?h1)"
    using assms(1) handle_peer_incoming_login [OF assms(2-6)]
    by (simp add: handle_def c WriteToPeer_Some)
  have p1: "getPeerByAddr ?h1 remote = Some peer" "Incoming (heap ?h1 peer)"
    "Status (heap ?h1 peer) = AuthBegin"
    using assms(1,2) by (simp_all add: getPeerByAddr_def)
  have step2: "\<exists>err' h2. handle e' ?h1 remote key = Inr (err', h2)
                   \<and> (if slice_len key = 40 \<and> drop 8 (elems key) = Token (heap ?h1 peer)
                       then Status (heap h2 peer) = AuthDone
                            \<and> writes h2 = writes ?h1 @ [(Addr (heap h peer), RepeaterACK @ id_h h)]
                       else Status (heap h2 peer) = AuthNone
                            \<and> writes h2 = writes ?h1 @ [(Addr (heap h peer), MasterNAK @ id_h h)])"
    if "8 \<le> slice_len key \<and> take 4 (elems key) = RepeaterKey" for e' key
  proof -
    from that have k: "8 \<le> slice_len key" "take 4 (elems key) = RepeaterKey" by simp_all
    have a: "Addr (heap ?h1 peer) = Addr (heap h peer)" "id_h ?h1 = id_h h" by simp_all
    show ?thesis using handle_incoming_key [OF p1 k, of e'] unfolding a .
  qed
  show ?thesis
  proof (intro exI conjI)
    show "handle e h remote login
            = Inr (case Addr (heap h peer) of None \<Rightarrow> Some WriteFailed
                   | Some s \<Rightarrow> if WriteTo_fails e s then Some WriteFailed else None, ?h1)"
      by (rule step1)
    show "writes ?h1 = writes h @ [(Addr (heap h peer), RepeaterACK @ nonce)]" by simp
    show "Status (heap ?h1 peer) = AuthBegin" by simp
    show "Token (heap ?h1 peer) = UpdateToken e (AuthKey (heap h peer)) nonce" by simp
    show "\<forall>e' key. 8 \<le> slice_len key \<and> take 4 (elems key) = RepeaterKey \<longrightarrow>
                (\<exists>err' h2. handle e' ?h1 remote key = Inr (err', h2)
                   \<and> (if slice_len key = 40 \<and> drop 8 (elems key) = Token (heap ?h1 peer)
                       then Status (heap h2 peer) = AuthDone
                            \<and> writes h2 = writes ?h1 @ [(Addr (heap h peer), RepeaterACK @ id_h h)]
                       else Status (heap h2 peer) = AuthNone
                            \<and> writes h2 = writes ?h1 @ [(Addr (heap h peer), MasterNAK @ id_h h)]))"
      using step2 by blast
    show "\<forall>e' key. slice_len key < 8 \<longrightarrow> handle e' ?h1 remote key = Inr (None, ?h1)"
      using p1(1) by (simp add: short_known_dropped)
  qed
qed

theorem incoming_auth_progression_witness:
  "getPeerByAddr incoming_endpoint ''192.0.2.7:62031'' = Some 0
   \<and> Incoming (heap incoming_endpoint 0) \<and> Status (heap incoming_endpoint 0) = AuthNone
   \<and> 8 \<le> slice_len example_login \<and> take 4 (elems example_login) = RepeaterLogin
   \<and> rand_Read example_env = Some [0xDE, 0xAD, 0xBE, 0xEF]
   \<and> 8 \<le> slice_len good_key \<and> take 4 (elems good_key) = RepeaterKey
   \<and> 8 \<le> slice_len bad_key \<and> take 4 (elems bad_key) = RepeaterKey
   \<and> (\<exists>err h1. handle example_env incoming_endpoint ''192.0.2.7:62031'' example_login = Inr (err, h1)
          \<and> Status (heap h1 0) = AuthBegin
          \<and> slice_len good_key = 40 \<and> drop 8 (elems good_key) = Token (heap h1 0)
          \<and> (\<exists>err' h2. handle example_env h1 ''192.0.2.7:62031'' good_key = Inr (err', h2)
                \<and> Status (heap h2 0) = AuthDone)
          \<and> drop 8 (elems bad_key) \<noteq> Token (heap h1 0)
          \<and> (\<exists>err' h2. handle example_env h1 ''192.0.2.7:62031'' bad_key = Inr (err', h2)
                \<and> Status (heap h2 0) = AuthNone)
          \<and> slice_len short_key < 8
          \<and> handle example_env h1 ''192.0.2.7:62031'' short_key = Inr (None, h1))"
proof -
  have r: "rand_Read example_env = Some [0xDE, 0xAD, 0xBE, 0xEF]" by (simp add: example_env_def)
  have n: "length [0xDE, 0xAD, 0xBE, 0xEF :: byte] = 4" by simp
  from incoming_auth_progression [OF incoming_endpoint_facts(1-3) example_login_facts r n]
  obtain err h1 where
    h1: "handle example_env incoming_endpoint ''192.0.2.7:62031'' example_login = Inr (err, h1)"
      "Status (heap h1 0) = AuthBegin"
      "Token (heap h1 0) = UpdateToken example_env (AuthKey (heap incoming_endpoint 0)) [0xDE, 0xAD, 0xBE, 0xEF]"
    and keys: "\<And>e' key. 8 \<le> slice_len key \<and> take 4 (elems key) = RepeaterKey \<Longrightarrow>
      \<exists>err' h2. handle e' h1 ''192.0.2.7:62031'' key = Inr (err', h2)
         \<and> (if slice_len key = 40 \<and> drop 8 (elems key) = Token (heap h1 0)
             then Status (heap h2 0) = AuthDone
                  \<and> writes h2 = writes h1 @ [(Addr (heap incoming_endpoint 0), RepeaterACK @ id_h incoming_endpoint)]
             else Status (heap h2 0) = AuthNone
                  \<and> writes h2 = writes h1 @ [(Addr (heap incoming_endpoint 0), MasterNAK @ id_h incoming_endpoint)])"
    and short: "\<And>e' key. slice_len key < 8 \<Longrightarrow> handle e' h1 ''192.0.2.7:62031'' key = Inr (None, h1)"
    by blast
  have sl: "slice_len short_key < 8"
    by (simp add: short_key_def slice_len_def received_def RepeaterKey_def bytes_of_def)
  note s = short [OF sl, of example_env]
  have t: "Token (heap h1 0) = example_token"
    using h1(3) by (simp add: incoming_endpoint_facts example_token_eq)
  from keys [of good_key example_env] good_key_facts t
  have g: "\<exists>err' h2. handle example_env h1 ''192.0.2.7:62031'' good_key = Inr (err', h2)
                \<and> Status (heap h2 0) = AuthDone"
    by auto
  from keys [of bad_key example_env] bad_key_facts t
  have b: "\<exists>err' h2. handle example_env h1 ''192.0.2.7:62031'' bad_key = Inr (err', h2)
                \<and> Status (heap h2 0) = AuthNone"
    by auto
  show ?thesis
    using incoming_endpoint_facts(1-3) example_login_facts r good_key_facts bad_key_facts
      h1(1,2) t g b sl s
    by auto
qed

lemma after_login_unknown:
  assumes "getPeerByAddr h remote = None"
  shows "after_login h remote =
           stamp_sent example_env
             (begun example_env (linked (fst (alloc h (newPeer 1 remote))) (nextRef h)) (nextRef h)
                [0xDE, 0xAD, 0xBE, 0xEF])
             (nextRef h) (RepeaterACK @ [0xDE, 0xAD, 0xBE, 0xEF])"
proof -
  let ?d = "received (RepeaterLogin @ [0, 0, 0, 1]) []"
  have e: "elems ?d = RepeaterLogin @ [0, 0, 0, 1]"
    by (rule received_elems) (simp add: RepeaterLogin_def bytes_of_def)
  have l: "8 \<le> slice_len ?d" using e by (simp add: slice_len_def RepeaterLogin_def bytes_of_def)
  have t: "take 4 (elems ?d) = RepeaterLogin" using e by (simp add: RepeaterLogin_def bytes_of_def)
  have i: "login_id ?d = 1"
    using e by (simp add: login_id_def unpackRepeaterID_def RepeaterLogin_def bytes_of_def shl32_def)
  have r: "rand_Read example_env = Some [0xDE, 0xAD, 0xBE, 0xEF]" by (simp add: example_env_def)
  have c: "copy_field 4 [0xDE, 0xAD, 0xBE, 0xEF] = [0xDE, 0xAD, 0xBE, 0xEF::byte]"
    by (simp add: copy_field_def)
  let ?h = "linked (fst (alloc h (newPeer 1 remote))) (nextRef h)"
  have p: "Incoming (heap ?h (nextRef h))" "Status (heap ?h (nextRef h)) = AuthNone" by simp_all
  show ?thesis
    unfolding after_login_def handle_unknown_login [OF assms l t] i
      handle_peer_incoming_login [OF p l t r] c
    by (simp add: WriteToPeer_Some)
qed

lemma begin_endpoint_eq:
  "begin_endpoint =
     stamp_sent example_env
       (begun example_env (linked (fst (alloc (New example_config) (newPeer 1 ''192.0.2.7:62031''))) 0) 0
          [0xDE, 0xAD, 0xBE, 0xEF])
       0 (RepeaterACK @ [0xDE, 0xAD, 0xBE, 0xEF])"
  unfolding begin_endpoint_def
  by (subst after_login_unknown) (simp_all add: getPeerByAddr_def)

lemma begin_endpoint_facts:
  "getPeerByAddr begin_endpoint ''192.0.2.7:62031'' = Some 0"
  "getPeerByAddr begin_endpoint ''203.0.113.9:62031'' = None"
  "Incoming (heap begin_endpoint 0)"
  "Status (heap begin_endpoint 0) = AuthBegin"
  "nextRef begin_endpoint = Suc 0"
  "Peer begin_endpoint = [(''192.0.2.7:62031'', 0)]"
  "PeerID begin_endpoint = [(1, 0)]"
  by (simp_all add: begin_endpoint_eq getPeerByAddr_def addr_String_def)

text \<open>
  The claim as stated fails for an \<open>RPTK\<close> datagram shorter than 8 bytes: its length is
  not 40, and it is dropped without an answer, the peer staying in Begin.
\<close>

theorem short_RPTK_not_answered:
  "Status (heap begin_endpoint 0) = AuthBegin
   \<and> take 4 (elems short_key) = RepeaterKey \<and> slice_len short_key \<noteq> 40
   \<and> handle example_env begin_endpoint ''192.0.2.7:62031'' short_key = Inr (None, begin_endpoint)"
proof -
  have e: "elems short_key = RepeaterKey"
    unfolding short_key_def by (rule received_elems) (simp add: RepeaterKey_def bytes_of_def)
  have l: "slice_len short_key < 8" using e by (simp add: slice_len_def RepeaterKey_def bytes_of_def)
  have "handle example_env begin_endpoint ''192.0.2.7:62031'' short_key = Inr (None, begin_endpoint)"
    using begin_endpoint_facts(1) l by (simp add: handle_def handle_peer_def)
  then show ?thesis
    using e by (simp add: begin_endpoint_facts slice_len_def RepeaterKey_def bytes_of_def)
qed

section \<open>Encoding the configuration changes it\<close>

lemma clamp_config_fields:
  "clamp_config d c =
     c\<lparr>ColorCode := (if ColorCode c < 1 then 1 else if ColorCode c > 15 then 15 else ColorCode c),
       TXPower := (if TXPower c > 99 then 99 else TXPower c),
       Slots := (if Slots c > 4 then 4 else Slots c),
       SoftwareID := (if SoftwareID c = [] then dmr_SoftwareID d else SoftwareID c),
       PackageID := (if PackageID c = [] then dmr_PackageID d else PackageID c)\<rparr>"
  by (cases c) (simp add: clamp_config_def Let_def)

lemma byte_ge_1: "(x::byte) \<noteq> 0 \<Longrightarrow> 1 \<le> x"
  by (metis not_less word_less_1)

lemma clamp_config_range:
  "1 \<le> ColorCode (clamp_config d c)" "ColorCode (clamp_config d c) \<le> 15"
  "TXPower (clamp_config d c) \<le> 99" "Slots (clamp_config d c) \<le> 4"
  by (auto simp add: clamp_config_fields not_less byte_ge_1)

lemma accepted_Config:
  "Config (snd (accepted e h peer)) = clamp_config (pkg e) (Config h)"
  by (simp add: accepted_def Let_def buildConfigData_def WriteToPeer_Some)

lemma accepted_Inr: "\<exists>err h'. accepted e h peer = (err, h') \<and> Config h' = clamp_config (pkg e) (Config h)"
  using accepted_Config [of e h peer] by (cases "accepted e h peer") auto

lemma login_accepted_changes_Config:
  assumes "getPeerByAddr h remote = Some peer"
    and "\<not> Incoming (heap h peer)" and "Status (heap h peer) = AuthBegin"
    and "10 \<le> slice_len data"
    and "take 6 (elems data) = MasterACK \<or> take 6 (elems data) = RepeaterACK"
  shows "\<exists>err h'. handle e h remote data = Inr (err, h')
            \<and> Config h' = clamp_config (pkg e) (Config h)"
proof -
  let ?h1 = "upd h peer (set_Last (\<lambda>l. l\<lparr>PacketReceived := time_Now e\<rparr>))"
  have l: "10 \<le> length (elems data)" using assms(4) by (simp add: slice_len_def)
  have d4: "take 4 (elems data) \<noteq> DMRData"
    using assms(5) by (auto dest!: prefix4_of_6 simp add: verb_prefixes)
  have "handle e h remote data = Inr (accepted e ?h1 peer)"
    using assms(1-3,5) l d4
    by (auto simp add: handle_def handle_peer_def auth_outgoing_def slice_len_def Let_def
        slice_to_within slice_range_within verb_prefixes verb_prefixes [symmetric])
  then show ?thesis using accepted_Inr [of e ?h1 peer] by auto
qed

text \<open>
  Claim C10 (config encoding mutates its argument): \<open>buildConfigData\<close> leaves the
  configuration it was given with the color code forced into 1..15, the TX power above 99
  set to 99, the slots above 4 set to 4 and an empty software or package id replaced with
  the default of the dmr package; so a configuration with a color code, a TX power or a
  slot count out of range is changed. The endpoint's own \<open>Config\<close> is encoded, and so
  changed, when the master's \<open>MSTACK\<close> or \<open>RPTACK\<close> accepts the login of an outgoing peer
  in state Begin.
\<close>

theorem buildConfigData_writes_back:
  "snd (buildConfigData g d c) =
     c\<lparr>ColorCode := (if ColorCode c < 1 then 1 else if ColorCode c > 15 then 15 else ColorCode c),
       TXPower := (if TXPower c > 99 then 99 else TXPower c),
       Slots := (if Slots c > 4 then 4 else Slots c),
       SoftwareID := (if SoftwareID c = [] then dmr_SoftwareID d else SoftwareID c),
       PackageID := (if PackageID c = [] then dmr_PackageID d else PackageID c)\<rparr>
   \<and> 1 \<le> ColorCode (snd (buildConfigData g d c)) \<and> ColorCode (snd (buildConfigData g d c)) \<le> 15
   \<and> TXPower (snd (buildConfigData g d c)) \<le> 99 \<and> Slots (snd (buildConfigData g d c)) \<le> 4
   \<and> (ColorCode c < 1 \<or> 15 < ColorCode c \<or> 99 < TXPower c \<or> 4 < Slots c
        \<longrightarrow> snd (buildConfigData g d c) \<noteq> c)
   \<and> (getPeerByAddr h remote = Some peer \<and> \<not> Incoming (heap h peer)
        \<and> Status (heap h peer) = AuthBegin \<and> 10 \<le> slice_len data
        \<and> (take 6 (elems data) = MasterACK \<or> take 6 (elems data) = RepeaterACK)
        \<longrightarrow> (\<exists>err h'. handle e h remote data = Inr (err, h')
               \<and> Config h' = snd (buildConfigData (lib e) (pkg e) (Config h))))"
proof -
  have changed: "clamp_config d c \<noteq> c"
    if "ColorCode c < 1 \<or> 15 < ColorCode c \<or> 99 < TXPower c \<or> 4 < Slots c"
  proof
    assume "clamp_config d c = c"
    then have "ColorCode (clamp_config d c) = ColorCode c" "TXPower (clamp_config d c) = TXPower c"
      "Slots (clamp_config d c) = Slots c" by simp_all
    with that clamp_config_range [of d c] show False by auto
  qed
  have eq: "snd (buildConfigData g d c) = clamp_config d c" for g d c
    by (simp add: buildConfigData_def)
  show ?thesis
    unfolding eq
    using clamp_config_range [of d c] changed login_accepted_changes_Config [of h remote peer data e]
    by (intro conjI impI) (simp_all only: clamp_config_fields [symmetric], blast+)
qed

theorem buildConfigData_writes_back_witness:
  "ColorCode example_config < 1 \<and> 99 < TXPower example_config \<and> 4 < Slots example_config
   \<and> snd (buildConfigData example_golib example_dmr example_config) \<noteq> example_config
   \<and> ColorCode (snd (buildConfigData example_golib example_dmr example_config)) = 1
   \<and> TXPower (snd (buildConfigData example_golib example_dmr example_config)) = 99
   \<and> Slots (snd (buildConfigData example_golib example_dmr example_config)) = 4
   \<and> (\<exists>err h1. handle example_env outgoing_endpoint ''198.51.100.1:62030'' example_nonce_ack
                   = Inr (err, h1)
         \<and> getPeerByAddr h1 ''198.51.100.1:62030'' = Some 0 \<and> \<not> Incoming (heap h1 0)
         \<and> Status (heap h1 0) = AuthBegin \<and> Config h1 = example_config
         \<and> 10 \<le> slice_len example_ack \<and> take 6 (elems example_ack) = MasterACK
         \<and> (\<exists>err' h2. handle example_env h1 ''198.51.100.1:62030'' example_ack = Inr (err', h2)
               \<and> Config h2 \<noteq> example_config))"
proof -
  have r: "ColorCode example_config < 1" "99 < TXPower example_config" "4 < Slots example_config"
    by (simp_all add: example_config_def)
  note t = buildConfigData_writes_back [of example_golib example_dmr example_config]
  have lp: "lib example_env = example_golib" "pkg example_env = example_dmr"
    by (simp_all add: example_env_def)
  from t r have c: "snd (buildConfigData example_golib example_dmr example_config) \<noteq> example_config"
    by blast
  have v: "ColorCode (snd (buildConfigData example_golib example_dmr example_config)) = 1"
    "TXPower (snd (buildConfigData example_golib example_dmr example_config)) = 99"
    "Slots (snd (buildConfigData example_golib example_dmr example_config)) = 4"
    using r by (simp_all add: conjunct1 [OF t])
  from outgoing_None_accepts_RPTACK_frame [OF outgoing_endpoint_facts(1-3) example_nonce_ack_facts,
      of example_env]
  obtain err h1 where h1:
    "handle example_env outgoing_endpoint ''198.51.100.1:62030'' example_nonce_ack = Inr (err, h1)"
    "Status (heap h1 0) = AuthBegin" "getPeerByAddr h1 ''198.51.100.1:62030'' = Some 0"
    "\<not> Incoming (heap h1 0)" "Config h1 = example_config"
    by (auto simp add: outgoing_endpoint_Config)
  note d = buildConfigData_writes_back [of example_golib example_dmr example_config
      h1 "''198.51.100.1:62030''" 0 example_ack example_env,
      THEN conjunct2, THEN conjunct2, THEN conjunct2, THEN conjunct2, THEN conjunct2,
      THEN conjunct2, unfolded lp h1(5)]
  have "\<exists>err' h2. handle example_env h1 ''198.51.100.1:62030'' example_ack = Inr (err', h2)
          \<and> Config h2 = snd (buildConfigData example_golib example_dmr example_config)"
    using d h1(2-4) example_ack_facts by blast
  then obtain err' h2 where h2:
    "handle example_env h1 ''198.51.100.1:62030'' example_ack = Inr (err', h2)"
    "Config h2 = snd (buildConfigData example_golib example_dmr example_config)"
    by blast
  show ?thesis
    using r c v h1 example_ack_facts h2 by auto
qed

section \<open>The two indexes of the registry\<close>

lemma indexes_agree_ran_id:
  assumes "indexes_agree True ci P Q I A n" and "r \<in> ran Q"
  shows "r \<in> ran P"
proof -
  from assms(2) obtain i where "Q i = Some r" by (auto simp add: ran_def)
  with assms(1) obtain a where "P a = Some r" unfolding indexes_agree_def by blast
  then show ?thesis by (rule ranI)
qed

lemma indexes_agree_ran_addr:
  assumes "indexes_agree ca True P Q I A n" and "r \<in> ran P"
  shows "r \<in> ran Q"
proof -
  from assms(2) obtain a where "P a = Some r" by (auto simp add: ran_def)
  with assms(1) have "Q (I r) = Some r" by (simp add: indexes_agree_def)
  then show ?thesis by (rule ranI)
qed

lemma indexes_agree_empty: "indexes_agree ca ci Map.empty Map.empty I A n"
  by (simp add: indexes_agree_def)

lemma indexes_agree_cong:
  assumes "indexes_agree ca ci P Q I A n"
    and "\<And>r. r < n \<Longrightarrow> I' r = I r" and "\<And>r. r < n \<Longrightarrow> A' r = A r"
  shows "indexes_agree ca ci P Q I' A' n"
  using assms unfolding indexes_agree_def by simp

lemma indexes_agree_update:
  assumes ok: "indexes_agree ca ci P Q I A n"
    and r: "r < n" and a: "A r = Some a"
    and fa: "ca \<Longrightarrow> P a = None \<or> P a = Some r"
    and fi: "ci \<Longrightarrow> Q (I r) = None \<or> Q (I r) = Some r"
  shows "indexes_agree ca ci (P(a \<mapsto> r)) (Q(I r \<mapsto> r)) I A n"
  unfolding indexes_agree_def
proof (rule conjI; intro allI impI)
  fix a' r' assume h: "(P(a \<mapsto> r)) a' = Some r'"
  show "r' < n \<and> A r' = Some a' \<and> (ci \<longrightarrow> (Q(I r \<mapsto> r)) (I r') = Some r')"
  proof (cases "a' = a")
    case True
    with h have "r' = r" by simp
    with True r a show ?thesis by simp
  next
    case False
    with h have p: "P a' = Some r'" by simp
    with ok have o: "r' < n" "A r' = Some a'" "ci \<longrightarrow> Q (I r') = Some r'"
      by (simp_all add: indexes_agree_def)
    have n: "r' \<noteq> r" using o(2) a False by auto
    have "(Q(I r \<mapsto> r)) (I r') = Some r'" if ci
    proof -
      have "I r' \<noteq> I r" using fi [OF that] o(3) n that by auto
      with o(3) that show ?thesis by simp
    qed
    with o show ?thesis by simp
  qed
next
  fix i r' assume h: "(Q(I r \<mapsto> r)) i = Some r'"
  show "r' < n \<and> I r' = i \<and> (ca \<longrightarrow> (\<exists>a'. A r' = Some a' \<and> (P(a \<mapsto> r)) a' = Some r'))"
  proof (cases "i = I r")
    case True
    with h have "r' = r" by simp
    with True r a show ?thesis by simp
  next
    case False
    with h have q: "Q i = Some r'" by simp
    with ok have o: "r' < n" "I r' = i" "ca \<longrightarrow> (\<exists>a'. A r' = Some a' \<and> P a' = Some r')"
      unfolding indexes_agree_def by blast+
    have n: "r' \<noteq> r" using o(2) False by auto
    have "\<exists>a'. A r' = Some a' \<and> (P(a \<mapsto> r)) a' = Some r'" if ca
    proof -
      from o(3) that obtain a' where a': "A r' = Some a'" "P a' = Some r'" by blast
      have "a' \<noteq> a" using fa [OF that] a'(2) n by auto
      with a' show ?thesis by simp
    qed
    with o show ?thesis by simp
  qed
qed

lemma indexes_agree_delete:
  assumes ok: "indexes_agree ca ci P Q I A n" and q: "Q i = Some r"
  shows "indexes_agree ca ci (P(addr_String (A r) := None)) (Q(i := None)) I A n"
proof -
  let ?s = "addr_String (A r)"
  from ok q have o: "r < n" "I r = i" "ca \<longrightarrow> (\<exists>a. A r = Some a \<and> P a = Some r)"
    unfolding indexes_agree_def by blast+
  show ?thesis
    unfolding indexes_agree_def
  proof (rule conjI; intro allI impI)
    fix a' r' assume h: "(P(?s := None)) a' = Some r'"
    then have n: "a' \<noteq> ?s" and p: "P a' = Some r'" by (auto split: if_splits)
    with ok have o': "r' < n" "A r' = Some a'" "ci \<longrightarrow> Q (I r') = Some r'"
      by (simp_all add: indexes_agree_def)
    have d: "r' \<noteq> r" using o'(2) n by (auto simp add: addr_String_def)
    have "(Q(i := None)) (I r') = Some r'" if ci
    proof -
      have "I r' \<noteq> i" using o'(3) q d that by auto
      with o'(3) that show ?thesis by simp
    qed
    with o' show "r' < n \<and> A r' = Some a' \<and> (ci \<longrightarrow> (Q(i := None)) (I r') = Some r')" by simp
  next
    fix j r' assume h: "(Q(i := None)) j = Some r'"
    then have n: "j \<noteq> i" and q': "Q j = Some r'" by (auto split: if_splits)
    with ok have o': "r' < n" "I r' = j" "ca \<longrightarrow> (\<exists>a'. A r' = Some a' \<and> P a' = Some r')"
      unfolding indexes_agree_def by blast+
    have d: "r' \<noteq> r" using o'(2) o(2) n by auto
    have "\<exists>a'. A r' = Some a' \<and> (P(?s := None)) a' = Some r'" if ca
    proof -
      from o'(3) that obtain a' where a': "A r' = Some a'" "P a' = Some r'" by blast
      from o(3) that obtain a where a: "A r = Some a" "P a = Some r" by blast
      have "a' \<noteq> a" using a'(2) a(2) d by auto
      with a' a(1) show ?thesis by (simp add: addr_String_def)
    qed
    with o' show "r' < n \<and> I r' = j \<and> (ca \<longrightarrow> (\<exists>a'. A r' = Some a' \<and> (P(?s := None)) a' = Some r'))"
      by simp
  qed
qed

lemma registry_ok_by_id:
  assumes "registry_ok True ci h" and "in_PeerID h r"
  shows "in_Peer h r"
  using indexes_agree_ran_id [OF assms(1) [unfolded registry_ok_def]] assms(2)
  by (simp add: in_Peer_def in_PeerID_def)

lemma registry_ok_by_addr:
  assumes "registry_ok ca True h" and "in_Peer h r"
  shows "in_PeerID h r"
  using indexes_agree_ran_addr [OF assms(1) [unfolded registry_ok_def]] assms(2)
  by (simp add: in_Peer_def in_PeerID_def)

lemma registry_ok_New: "registry_ok ca ci (New c)"
  by (simp add: registry_ok_def indexes_agree_empty)

lemma registry_ok_alloc:
  assumes "registry_ok ca ci h"
  shows "registry_ok ca ci (fst (alloc h p))"
proof -
  let ?n = "nextRef h"
  have "indexes_agree ca ci (map_of (Peer h)) (map_of (PeerID h))
          (\<lambda>r. ID (heap (fst (alloc h p)) r)) (\<lambda>r. Addr (heap (fst (alloc h p)) r)) ?n"
    by (rule indexes_agree_cong [OF assms [unfolded registry_ok_def]]) simp_all
  then show ?thesis
    unfolding registry_ok_def by (simp add: indexes_agree_def less_Suc_eq)
qed

lemma registry_ok_pf: "registry_ok ca ci h \<Longrightarrow> registry_ok ca ci (h\<lparr>pf := f\<rparr>)"
  by (simp add: registry_ok_def)

lemma same_registry_refl [simp]: "same_registry h h"
  by (simp add: same_registry_def)

lemma same_registry_trans: "same_registry h h1 \<Longrightarrow> same_registry h1 h2 \<Longrightarrow> same_registry h h2"
  by (simp add: same_registry_def)

lemma registry_ok_same: "same_registry h h' \<Longrightarrow> registry_ok ca ci h' = registry_ok ca ci h"
  by (simp add: registry_ok_def same_registry_def)

lemma same_registry_upd:
  assumes "\<And>p. ID (f p) = ID p" and "\<And>p. Addr (f p) = Addr p"
  shows "same_registry h (upd h r f)"
  using assms by (simp add: same_registry_def)

lemma registry_ok_upd [simp]:
  assumes "\<And>p. ID (f p) = ID p" and "\<And>p. Addr (f p) = Addr p"
  shows "registry_ok ca ci (upd h r f) = registry_ok ca ci h"
  by (rule registry_ok_same [OF same_registry_upd [OF assms]])

lemma same_registry_WriteToPeer: "same_registry h (snd (WriteToPeer e h b peer))"
proof (cases peer)
  case None
  then show ?thesis by (simp add: WriteToPeer_def)
next
  case (Some r)
  then show ?thesis by (simp add: WriteToPeer_Some same_registry_def)
qed

lemma registry_ok_WriteToPeer [simp]:
  "registry_ok ca ci (snd (WriteToPeer e h b peer)) = registry_ok ca ci h"
  by (rule registry_ok_same [OF same_registry_WriteToPeer])

lemma same_registry_handleAuth: "same_registry h (snd (handleAuth e h r))"
  by (simp add: same_registry_def handleAuth_frame)

lemma registry_ok_handleAuth [simp]:
  "registry_ok ca ci (snd (handleAuth e h r)) = registry_ok ca ci h"
  by (rule registry_ok_same [OF same_registry_handleAuth])

lemma registry_ok_linked:
  assumes ok: "registry_ok ca ci h" and r: "r < nextRef h" and a: "Addr (heap h r) = Some a"
    and fa: "ca \<Longrightarrow> key_free (Peer h) a r"
    and fi: "ci \<Longrightarrow> key_free (PeerID h) (ID (heap h r)) r"
  shows "registry_ok ca ci (linked h r)"
proof -
  have "indexes_agree ca ci ((map_of (Peer h))(a \<mapsto> r))
          ((map_of (PeerID h))(ID (heap h r) \<mapsto> r))
          (\<lambda>r. ID (heap h r)) (\<lambda>r. Addr (heap h r)) (nextRef h)"
    using ok [unfolded registry_ok_def] r a fa [unfolded key_free_def] fi [unfolded key_free_def]
    by (rule indexes_agree_update)
  then show ?thesis
    by (simp add: registry_ok_def update_conv' a addr_String_def)
qed

lemma registry_ok_Link:
  assumes "registry_ok ca ci h" and "exists_peer h (EvLink peer)"
    and "ca \<Longrightarrow> addr_free h (EvLink peer)" and "ci \<Longrightarrow> id_free h (EvLink peer)"
  shows "registry_ok ca ci (snd (Link e h peer))"
proof (cases peer)
  case None
  then show ?thesis using assms(1) by (simp add: Link_def)
next
  case (Some r)
  show ?thesis
  proof (cases "Addr (heap h r) \<noteq> None \<and> AuthKey (heap h r) \<noteq> []")
    case True
    then obtain a where a: "Addr (heap h r) = Some a" by auto
    from assms(2) Some have r: "r < nextRef h" by simp
    have fa: "key_free (Peer h) a r" if ca
      using assms(3) [OF that] Some True a by (simp add: addr_String_def)
    have fi: "key_free (PeerID h) (ID (heap h r)) r" if ci
      using assms(4) [OF that] Some True by simp
    from assms(1) r a fa fi have "registry_ok ca ci (linked h r)" by (rule registry_ok_linked)
    then show ?thesis using True Some by (simp add: Link_Some)
  next
    case False
    then show ?thesis using assms(1) Some by (auto simp add: Link_def)
  qed
qed

lemma registry_ok_Unlink:
  assumes "registry_ok ca ci h"
  shows "registry_ok ca ci (snd (Unlink h i))"
proof (cases "map_of (PeerID h) i")
  case None
  then show ?thesis using assms by (simp add: Unlink_def)
next
  case (Some r)
  have "indexes_agree ca ci ((map_of (Peer h))(addr_String (Addr (heap h r)) := None))
          ((map_of (PeerID h))(i := None)) (\<lambda>r. ID (heap h r)) (\<lambda>r. Addr (heap h r)) (nextRef h)"
    using assms Some unfolding registry_ok_def by (rule indexes_agree_delete)
  then show ?thesis
    using Some by (simp add: Unlink_def registry_ok_def delete_conv' Let_def)
qed

lemma pres_Inl [simp]: "pres ca ci (Inl p)"
  by (simp add: pres_def)

lemma pres_Inr [simp]: "pres ca ci (Inr x) \<longleftrightarrow> registry_ok ca ci (snd x)"
  by (cases x) (simp add: pres_def)

lemma pres_bind: "(\<And>x. pres ca ci (f x)) \<Longrightarrow> pres ca ci (bind_p m f)"
  by (cases m) simp_all

lemma registry_ok_SendTG_loop [simp]:
  "registry_ok ca ci (snd (SendTG_loop e data p i rs h)) = registry_ok ca ci h"
proof (induction rs arbitrary: h)
  case Nil
  show ?case by simp
next
  case (Cons r rs)
  show ?case
  proof (cases "WriteToPeer e h data (Some r)")
    case (Pair err h1)
    then have "registry_ok ca ci h1 = registry_ok ca ci h"
      using registry_ok_WriteToPeer [of ca ci e h data "Some r"] by simp
    with Pair Cons show ?thesis by (cases err) simp_all
  qed
qed

lemma registry_ok_small_updates [simp]:
  "registry_ok ca ci (h\<lparr>last_h := t\<rparr>) = registry_ok ca ci h"
  "registry_ok ca ci (h\<lparr>Config := c\<rparr>) = registry_ok ca ci h"
  "registry_ok ca ci (h\<lparr>writes := w\<rparr>) = registry_ok ca ci h"
  by (simp_all add: registry_ok_def)

lemma registry_ok_handlePacket [simp]:
  "registry_ok ca ci (snd (handlePacket e h p peer)) = registry_ok ca ci h"
  by (simp add: handlePacket_def SendTG_def Let_def split: option.splits)

lemma registry_ok_accepted [simp]:
  "registry_ok ca ci (snd (accepted e h peer)) = registry_ok ca ci h"
  by (simp add: accepted_def Let_def split_def)

lemma registry_ok_refused: "registry_ok ca ci h \<Longrightarrow> registry_ok ca ci (refused h peer)"
  by (simp add: refused_def Let_def registry_ok_Unlink)

lemma pres_auth_incoming: "registry_ok ca ci h \<Longrightarrow> pres ca ci (auth_incoming e h peer data)"
  unfolding auth_incoming_def
  by (auto simp add: Let_def split: AuthStatus.splits option.splits intro!: pres_bind)

lemma pres_auth_outgoing: "registry_ok ca ci h \<Longrightarrow> pres ca ci (auth_outgoing e h peer data)"
  unfolding auth_outgoing_def
  by (auto simp add: Let_def registry_ok_refused split: AuthStatus.splits intro!: pres_bind)

lemma pres_done_incoming: "registry_ok ca ci h \<Longrightarrow> pres ca ci (done_incoming e h peer data)"
  unfolding done_incoming_def
  by (auto simp add: Let_def split: sum.splits intro!: pres_bind)

lemma pres_done_outgoing: "registry_ok ca ci h \<Longrightarrow> pres ca ci (done_outgoing e h peer data)"
  unfolding done_outgoing_def checked_def
  by (auto simp add: Let_def split: sum.splits intro!: pres_bind)

lemma pres_handle_peer: "registry_ok ca ci h \<Longrightarrow> pres ca ci (handle_peer e h data found)"
  unfolding handle_peer_def
  by (auto simp add: Let_def pres_auth_incoming pres_auth_outgoing pres_done_incoming
      pres_done_outgoing split: option.splits intro!: pres_bind)

lemma pres_handle:
  assumes ok: "registry_ok ca ci h" and nc: "ci \<Longrightarrow> id_free h (EvHandle remote data)"
  shows "pres ca ci (handle e h remote data)"
proof (cases "getPeerByAddr h remote")
  case (Some peer)
  then show ?thesis using pres_handle_peer [OF ok] by (simp add: handle_def)
next
  case None
  show ?thesis
  proof (cases "slice_to data 4 = Inr RepeaterLogin")
    case False
    then show ?thesis using None ok
      by (cases "slice_to data 4") (simp_all add: handle_def)
  next
    case login: True
    show ?thesis
    proof (cases "slice_from data 4")
      case (Inl p)
      then show ?thesis using None login by (simp add: handle_def)
    next
      case (Inr rest)
      then have rest: "rest = drop 4 (elems data)"
        by (auto simp add: slice_from_def split: if_splits)
      show ?thesis
      proof (cases "unpackRepeaterID rest")
        case (Inl p)
        then show ?thesis using None login Inr by (simp add: handle_def)
      next
        case unp: (Inr i)
        then have l: "8 \<le> slice_len data" and i: "i = login_id data"
          using rest by (auto simp add: unpackRepeaterID_def slice_len_def login_id_def
              split: if_splits)
        let ?h1 = "fst (alloc h (newPeer i remote))"
        have "exists_peer ?h1 (EvLink (Some (nextRef h)))" by simp
        moreover have "addr_free ?h1 (EvLink (Some (nextRef h)))"
          using None by (simp add: key_free_def addr_String_def getPeerByAddr_def)
        moreover have "id_free ?h1 (EvLink (Some (nextRef h)))" if ci
          using nc [OF that] None login l i by (simp add: key_free_def)
        ultimately have "registry_ok ca ci (snd (Link e ?h1 (Some (nextRef h))))"
          by (intro registry_ok_Link registry_ok_alloc ok)
        then show ?thesis
          using None login Inr unp
          by (simp add: handle_def split_def Let_def pres_handle_peer)
      qed
    qed
  qed
qed

lemma registry_ok_apply_event:
  assumes "registry_ok ca ci h" and "exists_peer h ev"
    and "ca \<Longrightarrow> addr_free h ev" and "ci \<Longrightarrow> id_free h ev"
    and "apply_event e h ev = Inr h'"
  shows "registry_ok ca ci h'"
proof (cases ev)
  case (EvAlloc p)
  then show ?thesis using assms registry_ok_alloc by auto
next
  case (EvSetPacketFunc f)
  then show ?thesis using assms registry_ok_pf by auto
next
  case (EvLink peer)
  have "registry_ok ca ci (snd (Link e h peer))"
    using assms(1-4) unfolding EvLink by (rule registry_ok_Link)
  then show ?thesis using assms(5) EvLink by auto
next
  case (EvUnlink i)
  then show ?thesis using assms registry_ok_Unlink by auto
next
  case (EvHandle remote data)
  have "pres ca ci (handle e h remote data)"
    using assms(1,4) unfolding EvHandle by (rule pres_handle)
  then show ?thesis using assms(5) EvHandle
    by (auto simp add: pres_def split: sum.splits)
qed

lemma reachable_registry_ok:
  assumes "reachable C h"
    and "\<And>h ev. ca \<Longrightarrow> C h ev \<Longrightarrow> addr_free h ev"
    and "\<And>h ev. ci \<Longrightarrow> C h ev \<Longrightarrow> id_free h ev"
  shows "registry_ok ca ci h"
  using assms(1)
proof (induction rule: reachable.induct)
  case (reachable_New c)
  show ?case by (rule registry_ok_New)
next
  case (reachable_step h ev e h')
  from reachable_step.IH reachable_step.hyps(2) _ _ reachable_step.hyps(4) show ?case
    by (rule registry_ok_apply_event) (simp_all add: assms(2,3) reachable_step.hyps(3))
qed

text \<open>The two example endpoints in which two peers share a key.\<close>

lemma handle_first_login:
  assumes "getPeerByAddr h remote = None"
  shows "\<exists>err. handle example_env h remote (received (RepeaterLogin @ [0, 0, 0, 1]) [])
           = Inr (err, after_login h remote)"
proof -
  let ?d = "received (RepeaterLogin @ [0, 0, 0, 1]) []"
  have e: "elems ?d = RepeaterLogin @ [0, 0, 0, 1]"
    by (rule received_elems) (simp add: RepeaterLogin_def bytes_of_def)
  have l: "8 \<le> slice_len ?d" using e by (simp add: slice_len_def RepeaterLogin_def bytes_of_def)
  have t: "take 4 (elems ?d) = RepeaterLogin" using e by (simp add: RepeaterLogin_def bytes_of_def)
  have r: "rand_Read example_env = Some [0xDE, 0xAD, 0xBE, 0xEF]" by (simp add: example_env_def)
  let ?h = "linked (fst (alloc h (newPeer (login_id ?d) remote))) (nextRef h)"
  have p: "Incoming (heap ?h (nextRef h))" "Status (heap ?h (nextRef h)) = AuthNone" by simp_all
  obtain w where w: "handle example_env h remote ?d = Inr w"
    unfolding handle_unknown_login [OF assms l t] handle_peer_incoming_login [OF p l t r]
    by blast
  then have "after_login h remote = snd w"
    by (cases w) (simp add: after_login_def)
  with w show ?thesis by (cases w) auto
qed

lemma first_login_step:
  assumes "getPeerByAddr h remote = None"
  shows "apply_event example_env h (EvHandle remote (received (RepeaterLogin @ [0, 0, 0, 1]) []))
           = Inr (after_login h remote)"
  using handle_first_login [OF assms] by auto

lemma two_logins_eq:
  "two_logins =
     stamp_sent example_env
       (begun example_env (linked (fst (alloc begin_endpoint (newPeer 1 ''203.0.113.9:62031''))) (Suc 0)) (Suc 0)
          [0xDE, 0xAD, 0xBE, 0xEF])
       (Suc 0) (RepeaterACK @ [0xDE, 0xAD, 0xBE, 0xEF])"
  unfolding two_logins_def
  by (subst after_login_unknown) (simp_all add: begin_endpoint_facts)

lemma two_logins_registry:
  "Peer two_logins = [(''192.0.2.7:62031'', 0), (''203.0.113.9:62031'', Suc 0)]"
  "PeerID two_logins = [(1, Suc 0)]"
  by (simp_all add: two_logins_eq begin_endpoint_facts addr_String_def)

lemma second_peer_fields:
  "Addr second_peer = Some ''192.0.2.7:62031''" "AuthKey second_peer \<noteq> []"
  "Incoming second_peer" "ID second_peer = 0x00312346" "ID stale_peer = 0x00312345"
  by (simp_all add: second_peer_def stale_peer_def zero_Peer_def bytes_of_def)

lemma incoming_endpoint_registry:
  "Peer incoming_endpoint = [(''192.0.2.7:62031'', 0)]"
  "PeerID incoming_endpoint = [(0x00312345, 0)]"
  "nextRef incoming_endpoint = Suc 0"
  by (simp_all add: incoming_endpoint_def Link_Some stale_peer_fields second_peer_fields
      addr_String_def)

lemma two_links_registry:
  "Peer two_links = [(''192.0.2.7:62031'', Suc 0)]"
  "PeerID two_links = [(0x00312345, 0), (0x00312346, Suc 0)]"
  by (simp_all add: two_links_def Link_Some second_peer_fields incoming_endpoint_registry
      addr_String_def)

lemma reachable_begin_endpoint: "reachable C (New example_config) \<Longrightarrow>
    C (New example_config) (EvHandle ''192.0.2.7:62031'' (received (RepeaterLogin @ [0, 0, 0, 1]) []))
    \<Longrightarrow> reachable C begin_endpoint"
  unfolding begin_endpoint_def
  by (rule reachable_step [where ev = "EvHandle ''192.0.2.7:62031'' (received (RepeaterLogin @ [0, 0, 0, 1]) [])"
        and e = example_env and h = "New example_config"])
     (simp_all add: first_login_step getPeerByAddr_def del: apply_event.simps)

lemma reachable_two_logins: "reachable addr_free two_logins"
proof -
  have "reachable addr_free begin_endpoint"
    by (rule reachable_begin_endpoint) (simp_all add: reachable_New)
  then show ?thesis
    unfolding two_logins_def
    by (rule reachable_step [where ev = "EvHandle ''203.0.113.9:62031'' (received (RepeaterLogin @ [0, 0, 0, 1]) [])"
        and e = example_env])
       (simp_all add: first_login_step begin_endpoint_facts del: apply_event.simps)
qed

lemma reachable_two_links: "reachable id_free two_links"
proof -
  let ?h0 = "New example_config"
  let ?h1 = "fst (alloc ?h0 stale_peer)"
  let ?h3 = "fst (alloc incoming_endpoint second_peer)"
  have "reachable id_free ?h0" by (rule reachable_New)
  then have "reachable id_free ?h1"
    by (rule reachable_step [where ev = "EvAlloc stale_peer" and e = example_env]) simp_all
  then have "reachable id_free incoming_endpoint"
    unfolding incoming_endpoint_def
    by (rule reachable_step [where ev = "EvLink (Some 0)" and e = example_env])
       (simp_all add: key_free_def)
  then have "reachable id_free ?h3"
    by (rule reachable_step [where ev = "EvAlloc second_peer" and e = example_env]) simp_all
  then show ?thesis
    unfolding two_links_def
    by (rule reachable_step [where ev = "EvLink (Some 1)" and e = example_env])
       (simp_all add: key_free_def incoming_endpoint_registry second_peer_fields)
qed

text \<open>
  Claim C7 (registry bijection), as amended: after every sequence of peer creations,
  \<open>Link\<close>, \<open>Unlink\<close> and datagram handling from a new endpoint,
  \<^item> a peer object that is in the id index is in the address index, when no \<open>Link\<close> was
    given a peer whose address another peer object held;
  \<^item> a peer object that is in the address index is in the id index, when no \<open>Link\<close> was
    given a peer whose id another peer object held and no login from an unknown address
    announced an id that was registered;
  \<^item> a peer object is in the address index if and only if it is in the id index, when both
    hold.
\<close>

theorem registry_indexes_without_clashes:
  "(reachable addr_free h \<longrightarrow> in_PeerID h r \<longrightarrow> in_Peer h r)
   \<and> (reachable id_free h \<longrightarrow> in_Peer h r \<longrightarrow> in_PeerID h r)
   \<and> (reachable no_clash h \<longrightarrow> (in_Peer h r \<longleftrightarrow> in_PeerID h r))"
proof (intro conjI impI)
  assume "reachable addr_free h"
  then have "registry_ok True False h" by (rule reachable_registry_ok) simp_all
  moreover assume "in_PeerID h r"
  ultimately show "in_Peer h r" by (rule registry_ok_by_id)
next
  assume "reachable id_free h"
  then have "registry_ok False True h" by (rule reachable_registry_ok) simp_all
  moreover assume "in_Peer h r"
  ultimately show "in_PeerID h r" by (rule registry_ok_by_addr)
next
  assume "reachable no_clash h"
  then have ok: "registry_ok True True h"
    by (rule reachable_registry_ok) (simp_all add: no_clash_def)
  show "in_Peer h r \<longleftrightarrow> in_PeerID h r"
    using registry_ok_by_id [OF ok] registry_ok_by_addr [OF ok] by blast
qed

theorem registry_indexes_without_clashes_witness:
  "reachable addr_free two_logins \<and> in_PeerID two_logins (Suc 0) \<and> in_Peer two_logins (Suc 0)
   \<and> reachable id_free two_links \<and> in_Peer two_links (Suc 0) \<and> in_PeerID two_links (Suc 0)
   \<and> reachable no_clash begin_endpoint \<and> in_Peer begin_endpoint 0 \<and> in_PeerID begin_endpoint 0"
proof -
  have "map_of (PeerID two_logins) 1 = Some (Suc 0)" by (simp add: two_logins_registry)
  then have a: "in_PeerID two_logins (Suc 0)" unfolding in_PeerID_def by (rule ranI)
  have "map_of (Peer two_links) ''192.0.2.7:62031'' = Some (Suc 0)"
    by (simp add: two_links_registry)
  then have b: "in_Peer two_links (Suc 0)" unfolding in_Peer_def by (rule ranI)
  have c: "reachable no_clash begin_endpoint"
    by (rule reachable_begin_endpoint) (simp_all add: reachable_New no_clash_def)
  have "map_of (Peer begin_endpoint) ''192.0.2.7:62031'' = Some 0"
    by (simp add: begin_endpoint_facts)
  then have d: "in_Peer begin_endpoint 0" unfolding in_Peer_def by (rule ranI)
  from registry_indexes_without_clashes [of two_logins "Suc 0"]
    registry_indexes_without_clashes [of two_links "Suc 0"]
    registry_indexes_without_clashes [of begin_endpoint 0]
    reachable_two_logins reachable_two_links a b c d
  show ?thesis by simp
qed

text \<open>
  Claim C7 fails as stated. After two logins with the same id from two addresses, the peer
  created first is in the address index and no longer in the id index; after the host has
  linked two peers with the same address and two ids, the peer linked first is in the id
  index and no longer in the address index.
\<close>

theorem shared_key_breaks_bijection:
  "in_Peer two_logins 0 \<and> \<not> in_PeerID two_logins 0
   \<and> in_PeerID two_links 0 \<and> \<not> in_Peer two_links 0"
proof (intro conjI)
  have "map_of (Peer two_logins) ''192.0.2.7:62031'' = Some 0"
    by (simp add: two_logins_registry)
  then show "in_Peer two_logins 0" unfolding in_Peer_def by (rule ranI)
  show "\<not> in_PeerID two_logins 0"
    by (simp add: in_PeerID_def two_logins_registry ran_def)
  have "map_of (PeerID two_links) 0x00312345 = Some 0"
    by (simp add: two_links_registry)
  then show "in_PeerID two_links 0" unfolding in_PeerID_def by (rule ranI)
  show "\<not> in_Peer two_links 0"
    by (simp add: in_Peer_def two_links_registry ran_def)
qed
section \<open>Configuration codec\<close>

lemma Longitude_clamp_config [simp]: "Longitude (clamp_config d c) = Longitude c"
  by (simp add: clamp_config_fields)

lemma length_encode_config: "length (encode_config g c) = 302"
  by (simp add: encode_config_def Let_def RepeaterConfig_def bytes_of_def length_copy_field)

lemma encode_config_longitude:
  "sub (encode_config g c) 46 (46 + 9) =
     copy_field 9 (bytes_of (let lon0 = pad_right g 9 (FormatFloat g (Longitude c))
                             in if length lon0 > 9 then take 9 lon0 else lon0))"
  by (simp add: encode_config_def Let_def sub_def RepeaterConfig_def bytes_of_def
      length_copy_field)

lemma char_of_byte_of_char: "char_of (unat (of_nat (of_char c) :: byte)) = c"
  by (simp add: unat_of_nat)

lemma string_of_bytes_of: "string_of (bytes_of s) = s"
  by (induction s) (simp_all add: string_of_def bytes_of_def char_of_byte_of_char)

text \<open>
  Claim C9 (configuration round trip): \<open>parseConfigData (buildConfigData c)\<close> should
  give back \<open>c\<close> up to trimming and clamping, the longitude included. On the code, a
  longitude whose \<open>%f\<close> text has 8 characters (one integer digit and no sign, such as
  \<open>1.000000\<close>) is written left-justified into its field of 9 bytes, so a space follows
  it; the parser hands the 9 bytes to \<open>ParseFloat\<close>, which takes no space, and keeps the
  \<open>0\<close> of the syntax error: the longitude comes back as \<open>0\<close>.
\<close>

theorem longitude_of_8_characters_lost:
  assumes "length (FormatFloat g (Longitude c)) = 8"
    and "RuneCountInString g (FormatFloat g (Longitude c)) = 8"
  shows "\<exists>c'. parseConfigData g (fst (buildConfigData g d c)) = Inr c' \<and> Longitude c' = 0"
proof -
  let ?t = "FormatFloat g (Longitude c)"
  have p: "pad_right g 9 ?t = ?t @ [space]"
    using assms(2) by (simp add: pad_right_def)
  have "sub (encode_config g (clamp_config d c)) 46 (46 + 9) = bytes_of (?t @ [space])"
    unfolding encode_config_longitude
    using assms(1) by (simp add: p copy_field_exact bytes_of_def)
  then have "space \<in> set (string_of (sub (encode_config g (clamp_config d c)) 46 (46 + 9)))"
    by (simp add: string_of_bytes_of)
  then show ?thesis
    by (simp add: parseConfigData_def buildConfigData_def length_encode_config Let_def
        ParseFloat32_def)
qed

theorem longitude_of_8_characters_lost_witness:
  "length (FormatFloat example_golib (Longitude east_config)) = 8
   \<and> RuneCountInString example_golib (FormatFloat example_golib (Longitude east_config)) = 8
   \<and> Longitude east_config \<noteq> 0
   \<and> (\<exists>c'. parseConfigData example_golib (fst (buildConfigData example_golib example_dmr east_config))
              = Inr c' \<and> Longitude c' = 0)"
proof -
  have h: "length (FormatFloat example_golib (Longitude east_config)) = 8"
    "RuneCountInString example_golib (FormatFloat example_golib (Longitude east_config)) = 8"
    "Longitude east_config \<noteq> 0"
    by (simp_all add: example_golib_def east_config_def)
  from longitude_of_8_characters_lost [OF h(1,2), of example_dmr] h show ?thesis by simp
qed


end
